theory Spec2Isabelle
  imports Complex_Main
begin

section \<open>Numbers\<close>

text \<open>
  JavaScript numbers are idealised as real numbers: rounding of IEEE doubles and the
  infinities are outside the model. The one special value that the code can observe,
  \<open>NaN\<close> (the result of \<open>parseFloat\<close> on text that is no number), is kept, because it is
  falsy and therefore takes the "no price" branches.
\<close>

datatype jsnum = Num real | NaN

text \<open>
  A quotient. \<open>None\<close> marks a division by zero (where JavaScript would produce \<open>NaN\<close> or
  an infinity instead of a number).
\<close>

definition quotient :: "real \<Rightarrow> real \<Rightarrow> real option" where
  "quotient a b = (if b = 0 then None else Some (a / b))"

section \<open>Price manipulation\<close>

text \<open>
  The computation between reading the exposure totals and storing the price, as it stands
  in \<open>adjustPrice\<close> of \<open>src/priceHandler.ts\<close> (lines 52 to 65) and, character for
  character, in both files of \<open>part_003\<close>:
  \<^verbatim>\<open>
  let manipulatedPrice = binancePrice;
  const totalValue = upValue + downValue;
  if (totalValue > 0) {
    const upRatio = upValue / totalValue;
    const downRatio = downValue / totalValue;
    if (upRatio > 0.6) { manipulatedPrice *= 0.998; }
    else if (downRatio > 0.6) { manipulatedPrice *= 1.002; }
  }
  \<close>
\<close>

definition manipulate :: "real \<Rightarrow> real \<Rightarrow> real \<Rightarrow> real option" where
  "manipulate price upValue downValue =
     (let totalValue = upValue + downValue in
      if totalValue > 0 then
        (case quotient upValue totalValue of
           None \<Rightarrow> None
         | Some upRatio \<Rightarrow>
            (case quotient downValue totalValue of
               None \<Rightarrow> None
             | Some downRatio \<Rightarrow>
                 if upRatio > 0.6 then Some (price * 0.998)
                 else if downRatio > 0.6 then Some (price * 1.002)
                 else Some price))
      else Some price)"

text \<open>
  The same passage of \<open>part_002\<close> (lines 56 to 76): the two tests come in the other
  order, and inside the guard the price is multiplied by
  \<open>Math.random() * 0.0005 + 0.99975\<close>. The value drawn by \<open>Math.random()\<close>, a number in
  \<open>[0, 1)\<close>, is the first argument.
\<close>

definition manipulate_jitter :: "real \<Rightarrow> real \<Rightarrow> real \<Rightarrow> real \<Rightarrow> real option" where
  "manipulate_jitter rnd price upValue downValue =
     (let totalValue = upValue + downValue in
      if totalValue > 0 then
        (case quotient upValue totalValue of
           None \<Rightarrow> None
         | Some upRatio \<Rightarrow>
            (case quotient downValue totalValue of
               None \<Rightarrow> None
             | Some downRatio \<Rightarrow>
                 (let biased =
                        (if downRatio > 0.6 then price * 1.002
                         else if upRatio > 0.6 then price * 0.998
                         else price);
                      randomFactor = rnd * 0.0005 + 0.99975
                  in Some (biased * randomFactor))))
      else Some price)"

text \<open>
  The algorithm of the specification, in its words: return the raw price when the total
  is zero; otherwise \<open>upRatio = upAmount / (upAmount + downAmount)\<close> and
  \<open>downRatio = 1 - upRatio\<close>; above \<open>0.6\<close> up multiply by \<open>0.998\<close>, else above \<open>0.6\<close> down
  multiply by \<open>1.002\<close>, else leave unchanged.
\<close>

definition publish_spec :: "real \<Rightarrow> real \<Rightarrow> real \<Rightarrow> real" where
  "publish_spec rawPrice upAmount downAmount =
     (if upAmount + downAmount = 0 then rawPrice
      else
        (let upRatio = upAmount / (upAmount + downAmount);
             downRatio = 1 - upRatio
         in if upRatio > 0.6 then rawPrice * 0.998
            else if downRatio > 0.6 then rawPrice * 1.002
            else rawPrice))"

section \<open>The store\<close>

text \<open>
  The Prisma schema is not among the sources. The rows carry the columns that the code
  reads and writes; a user row is its balance. The order table assigns ids from a counter.
  No referential constraint is modelled: the code itself never looks a symbol up when an
  order is placed.
\<close>

record order_data =
  userId :: nat
  symbolId :: nat
  amount :: real
  direction :: string
  entryPrice :: real
  manipulatedEntryPrice :: real
  duration :: real
  expiresAt :: real
  payout :: real

text \<open>An open order has \<open>outcome = None\<close> (\<open>null\<close> in the table).\<close>

record order = order_data +
  order_id :: nat
  exitPrice :: "real option"
  manipulatedExitPrice :: "real option"
  outcome :: "string option"
  profitLoss :: "real option"

record symbol_row =
  symbol_id :: nat
  symbol_name :: string
  binanceSymbol :: string
  manipulatedPrice :: "real option"
  currentPrice :: "real option"

record db =
  users :: "nat \<Rightarrow> real option"
  orders :: "order list"
  symbols :: "symbol_row list"
  nextOrderId :: nat

definition new_row :: "nat \<Rightarrow> order_data \<Rightarrow> order" where
  "new_row i d =
     \<lparr>userId = userId d, symbolId = symbolId d, amount = amount d,
      direction = direction d, entryPrice = entryPrice d,
      manipulatedEntryPrice = manipulatedEntryPrice d, duration = duration d,
      expiresAt = expiresAt d, payout = payout d,
      order_id = i, exitPrice = None, manipulatedExitPrice = None,
      outcome = None, profitLoss = None\<rparr>"

text \<open>The \<open>data\<close> of a \<open>prisma.user.update\<close>: \<open>{balance: {decrement}}\<close>,
  \<open>{balance: {increment}}\<close> or \<open>{}\<close>.\<close>

datatype balance_update = Decrement real | Increment real | Unchanged

fun new_balance :: "balance_update \<Rightarrow> real \<Rightarrow> real" where
  "new_balance (Decrement a) b = b - a"
| "new_balance (Increment a) b = b + a"
| "new_balance Unchanged b = b"

text \<open>The operations that the code puts into a \<open>prisma.$transaction([...])\<close>. The
  arguments of \<open>OrderUpdate\<close> are the id, the exit price, the outcome and the profit or
  loss.\<close>

datatype db_op =
    OrderCreate order_data
  | UserUpdate nat balance_update
  | OrderUpdate nat real string real

definition settled :: "real \<Rightarrow> string \<Rightarrow> real \<Rightarrow> order \<Rightarrow> order" where
  "settled price out pl row =
     row\<lparr>exitPrice := Some price, manipulatedExitPrice := Some price,
         outcome := Some out, profitLoss := Some pl\<rparr>"

text \<open>An \<open>update\<close> of a row that does not exist throws: \<open>None\<close>.\<close>

fun apply_op :: "db_op \<Rightarrow> db \<Rightarrow> db option" where
  "apply_op (OrderCreate d) st =
     Some (st\<lparr>orders := orders st @ [new_row (nextOrderId st) d],
              nextOrderId := Suc (nextOrderId st)\<rparr>)"
| "apply_op (UserUpdate uid upd) st =
     (case users st uid of
        None \<Rightarrow> None
      | Some b \<Rightarrow> Some (st\<lparr>users := (users st)(uid := Some (new_balance upd b))\<rparr>))"
| "apply_op (OrderUpdate i price out pl) st =
     (if i \<in> set (map order_id (orders st))
      then Some (st\<lparr>orders :=
                  map (\<lambda>row. if order_id row = i then settled price out pl row else row)
                    (orders st)\<rparr>)
      else None)"

text \<open>A transaction runs its operations in order and commits all of them or, when one
  throws, none (\<open>None\<close>: the caller keeps the store it had).\<close>

fun transaction :: "db_op list \<Rightarrow> db \<Rightarrow> db option" where
  "transaction [] st = Some st"
| "transaction (x # xs) st =
     (case apply_op x st of None \<Rightarrow> None | Some st' \<Rightarrow> transaction xs st')"

text \<open>\<open>getOrderTotals\<close>: the amounts of the open orders of a symbol, summed by
  direction; a missing group counts \<open>0\<close>.\<close>

definition getOrderTotals :: "db \<Rightarrow> nat \<Rightarrow> real \<times> real" where
  "getOrderTotals st sid =
     (let active = filter (\<lambda>row. symbolId row = sid \<and> outcome row = None) (orders st)
      in (sum_list (map amount (filter (\<lambda>row. direction row = ''up'') active)),
          sum_list (map amount (filter (\<lambda>row. direction row = ''down'') active))))"

section \<open>The price feed and the published price\<close>

text \<open>The number that passes a test \<open>if (!x) return ...\<close>, for \<open>x\<close> a number or
  \<open>null\<close>/\<open>undefined\<close> (\<open>None\<close>).\<close>

fun usable :: "jsnum option \<Rightarrow> real option" where
  "usable (Some (Num x)) = (if x = 0 then None else Some x)"
| "usable (Some NaN) = None"
| "usable None = None"

text \<open>
  \<open>adjustPrice\<close> of \<open>src/priceHandler.ts\<close>. The first argument is what
  \<open>fetchBinancePrice(symbol)\<close> resolved to: \<open>null\<close> after a failed request, else the
  parsed price. The result is the returned price (\<open>None\<close> for \<open>null\<close>) and the store.
\<close>

definition adjustPrice :: "jsnum option \<Rightarrow> string \<Rightarrow> db \<Rightarrow> real option \<times> db" where
  "adjustPrice fetched symbol st =
     (case find (\<lambda>row. binanceSymbol row = symbol) (symbols st) of
        None \<Rightarrow> (None, st)
      | Some symbolData \<Rightarrow>
         (case usable fetched of
            None \<Rightarrow> (None, st)
          | Some binancePrice \<Rightarrow>
             (case getOrderTotals st (symbol_id symbolData) of
                (upValue, downValue) \<Rightarrow>
                  (case manipulate binancePrice upValue downValue of
                     None \<Rightarrow> (None, st)
                   | Some price \<Rightarrow>
                       (Some price,
                        st\<lparr>symbols :=
                             map (\<lambda>row. if binanceSymbol row = symbol
                                         then row\<lparr>manipulatedPrice := Some price\<rparr>
                                         else row)
                               (symbols st)\<rparr>)))))"

text \<open>\<open>getCurrentPrice\<close> of \<open>part_002\<close> and \<open>part_003\<close>:
  \<open>priceCache.get(symbol) || null\<close>.\<close>

definition getCurrentPrice :: "(string \<Rightarrow> jsnum option) \<Rightarrow> string \<Rightarrow> real option" where
  "getCurrentPrice cache symbol = usable (cache symbol)"

text \<open>
  \<open>adjustPrice\<close> of \<open>part_002\<close>, which reads the price cache, looks the symbol up by
  name, draws \<open>Math.random()\<close> (the first argument) and stores both prices. Any error is
  caught and gives \<open>null\<close>.
\<close>

definition adjustPrice_jitter ::
  "real \<Rightarrow> (string \<Rightarrow> jsnum option) \<Rightarrow> string \<Rightarrow> db \<Rightarrow> real option \<times> db" where
  "adjustPrice_jitter rnd cache symbol st =
     (case getCurrentPrice cache symbol of
        None \<Rightarrow> (None, st)
      | Some price0 \<Rightarrow>
         (case find (\<lambda>row. symbol_name row = symbol) (symbols st) of
            None \<Rightarrow> (None, st)
          | Some symbolData \<Rightarrow>
             (case getOrderTotals st (symbol_id symbolData) of
                (upValue, downValue) \<Rightarrow>
                  (case manipulate_jitter rnd price0 upValue downValue of
                     None \<Rightarrow> (None, st)
                   | Some price \<Rightarrow>
                       (Some price,
                        st\<lparr>symbols :=
                             map (\<lambda>row. if symbol_name row = symbol
                                         then row\<lparr>manipulatedPrice := Some price,
                                                  currentPrice := Some price0\<rparr>
                                         else row)
                               (symbols st)\<rparr>)))))"

text \<open>
  The \<open>message\<close> handler of \<open>initBinanceWebSocket\<close>. A frame is either text that
  \<open>JSON.parse\<close> rejects or an object, of which the handler reads the event type \<open>e\<close>, the
  symbol \<open>s\<close> and the last price \<open>c\<close> (here already through \<open>parseFloat\<close>). Binance's
  event time \<open>E\<close>, the time of the observation, is part of the frame; the handler does
  not read it.
\<close>

record ticker =
  msg_e :: string
  msg_E :: nat
  msg_s :: string
  msg_c :: jsnum

datatype frame = Malformed | Message ticker

fun onMessage :: "frame \<Rightarrow> (string \<Rightarrow> jsnum option) \<Rightarrow> (string \<Rightarrow> jsnum option)" where
  "onMessage Malformed cache = cache"
| "onMessage (Message m) cache =
     (if msg_e m = ''24hrTicker'' then cache(msg_s m := Some (msg_c m)) else cache)"

text \<open>The frames of a connection, handled in the order of their arrival.\<close>

fun onMessages :: "frame list \<Rightarrow> (string \<Rightarrow> jsnum option) \<Rightarrow> (string \<Rightarrow> jsnum option)" where
  "onMessages [] cache = cache"
| "onMessages (f # fs) cache = onMessages fs (onMessage f cache)"

text \<open>For the statements about the cache: the ticker frames for a symbol among the
  frames of a connection, in the order of their arrival.\<close>

fun tickersFor :: "string \<Rightarrow> frame list \<Rightarrow> ticker list" where
  "tickersFor s [] = []"
| "tickersFor s (Malformed # fs) = tickersFor s fs"
| "tickersFor s (Message m # fs) =
     (if msg_e m = ''24hrTicker'' \<and> msg_s m = s then m # tickersFor s fs
      else tickersFor s fs)"

section \<open>The server: placing and settling an order\<close>

text \<open>
  The body of a \<open>POST /api/orders\<close> request. A field that is absent is \<open>undefined\<close> and
  fails the same test \<open>!x\<close> as the empty text or \<open>0\<close>, which stand for it here.
\<close>

record order_request =
  rq_userId :: nat
  rq_symbolId :: nat
  rq_symbol :: string
  rq_amount :: real
  rq_direction :: string
  rq_entryPrice :: real
  rq_duration :: real

text \<open>What the callback given to \<open>setTimeout\<close> holds on to: the request and the row
  that \<open>prisma.order.create\<close> returned.\<close>

record task =
  task_request :: order_request
  task_order :: order

text \<open>
  The state of the process: the store, the two price maps (\<open>manipulatedPrices\<close> of
  \<open>server.ts\<close> and \<open>priceCache\<close> of the price handler) and the timers armed so far
  (the calls of \<open>setTimeout\<close>, in order), each with its delay in milliseconds.
\<close>

record server =
  store :: db
  manipulatedPrices :: "string \<Rightarrow> real option"
  priceCache :: "string \<Rightarrow> jsnum option"
  timers :: "(real \<times> task) list"

datatype response = Status400 string | Status201 order | Status500 string

definition order_of_request :: "real \<Rightarrow> order_request \<Rightarrow> order_data" where
  "order_of_request now rq =
     \<lparr>userId = rq_userId rq, symbolId = rq_symbolId rq, amount = rq_amount rq,
      direction = rq_direction rq, entryPrice = rq_entryPrice rq,
      manipulatedEntryPrice = rq_entryPrice rq, duration = rq_duration rq,
      expiresAt = now + rq_duration rq * 1000, payout = 0.8\<rparr>"

text \<open>
  The handler of \<open>POST /api/orders\<close> (\<open>server.ts\<close>, lines 71 to 164, and the same
  handler in \<open>part_001\<close>) up to its response; \<open>now\<close> is \<open>Date.now()\<close>. An exception
  anywhere is caught and answered with status 500.
\<close>

definition postOrder :: "real \<Rightarrow> order_request \<Rightarrow> server \<Rightarrow> response \<times> server" where
  "postOrder now rq sv =
     (if rq_symbol rq = [] \<or> rq_amount rq = 0 \<or> rq_direction rq = [] \<or> rq_duration rq = 0
      then (Status400 ''Invalid input'', sv)
      else
        (case users (store sv) (rq_userId rq) of
           None \<Rightarrow> (Status400 ''Insufficient balance'', sv)
         | Some balance \<Rightarrow>
             if balance < rq_amount rq then (Status400 ''Insufficient balance'', sv)
             else
               (let created = new_row (nextOrderId (store sv)) (order_of_request now rq)
                in case transaction
                          [OrderCreate (order_of_request now rq),
                           UserUpdate (rq_userId rq) (Decrement (rq_amount rq))]
                          (store sv) of
                     None \<Rightarrow> (Status500 ''Server Error'', sv)
                   | Some st \<Rightarrow>
                       (Status201 created,
                        sv\<lparr>store := st,
                           timers := timers sv @
                             [(rq_duration rq * 1000,
                               \<lparr>task_request = rq, task_order = created\<rparr>)]\<rparr>))))"

text \<open>The price that settlement starts from (\<open>server.ts\<close>, lines 117 to 119):
  \<open>manipulatedPrices.get(symbol) || getCurrentPrice(symbol)\<close>; \<open>None\<close> when the
  callback returns at \<open>if (!finalPrice) return\<close>.\<close>

definition readPrice :: "server \<Rightarrow> string \<Rightarrow> real option" where
  "readPrice sv symbol =
     (case manipulatedPrices sv symbol of
        None \<Rightarrow> getCurrentPrice (priceCache sv) symbol
      | Some p \<Rightarrow> if p = 0 then getCurrentPrice (priceCache sv) symbol else Some p)"

text \<open>The "last-second manipulation" (\<open>server.ts\<close>, lines 123 to 128).\<close>

definition lastSecond :: "real \<Rightarrow> real \<Rightarrow> real \<Rightarrow> real" where
  "lastSecond finalPrice upValue downValue =
     (if upValue > downValue then finalPrice * 0.998
      else if downValue > upValue then finalPrice * 1.002
      else finalPrice)"

text \<open>Lines 130 to 135: the test of a win and the profit or loss.\<close>

definition isWin :: "task \<Rightarrow> real \<Rightarrow> bool" where
  "isWin t finalPrice =
     (if rq_direction (task_request t) = ''up''
      then finalPrice > manipulatedEntryPrice (task_order t)
      else finalPrice < manipulatedEntryPrice (task_order t))"

definition profitLossOf :: "task \<Rightarrow> real \<Rightarrow> real" where
  "profitLossOf t finalPrice =
     (if isWin t finalPrice then rq_amount (task_request t) * 0.8
      else - rq_amount (task_request t))"

text \<open>Lines 137 to 153: the operations of the settling transaction.\<close>

definition settlementOps :: "task \<Rightarrow> real \<Rightarrow> db_op list" where
  "settlementOps t finalPrice =
     [OrderUpdate (order_id (task_order t)) finalPrice
        (if isWin t finalPrice then ''win'' else ''loss'') (profitLossOf t finalPrice),
      if isWin t finalPrice
      then UserUpdate (rq_userId (task_request t))
             (Increment (rq_amount (task_request t) + profitLossOf t finalPrice))
      else UserUpdate (rq_userId (task_request t)) Unchanged]"

text \<open>The transaction runs inside \<open>try\<close>: when it throws, the error is logged and
  nothing has changed.\<close>

definition commitOutcome :: "task \<Rightarrow> real \<Rightarrow> server \<Rightarrow> server" where
  "commitOutcome t finalPrice sv =
     (case transaction (settlementOps t finalPrice) (store sv) of
        None \<Rightarrow> sv
      | Some st \<Rightarrow> sv\<lparr>store := st\<rparr>)"

text \<open>The callback of \<open>setTimeout\<close> in \<open>server.ts\<close> (lines 115 to 157).\<close>

definition settleTrade :: "task \<Rightarrow> server \<Rightarrow> server" where
  "settleTrade t sv =
     (case readPrice sv (rq_symbol (task_request t)) of
        None \<Rightarrow> sv
      | Some price \<Rightarrow>
          (case getOrderTotals (store sv) (rq_symbolId (task_request t)) of
             (upValue, downValue) \<Rightarrow>
               commitOutcome t (lastSecond price upValue downValue) sv))"

text \<open>The callback in both files of \<open>part_001\<close> (lines 104 to 136): the price is
  \<open>manipulatedPrices.get(symbol)\<close> and is used as it is.\<close>

definition settleTrade_realTime :: "task \<Rightarrow> server \<Rightarrow> server" where
  "settleTrade_realTime t sv =
     (case manipulatedPrices sv (rq_symbol (task_request t)) of
        None \<Rightarrow> sv
      | Some realTimePrice \<Rightarrow>
          if realTimePrice = 0 then sv else commitOutcome t realTimePrice sv)"

section \<open>A small venue, for concrete runs\<close>

text \<open>One symbol, one user with a balance of 100, a published price of 200, and a
  request to stake 10 on "up" from an entry price of 100 for 60 seconds.\<close>

definition example_db :: db where
  "example_db =
     \<lparr>users = (\<lambda>_. None)(1 := Some 100), orders = [],
      symbols = [\<lparr>symbol_id = 1, symbol_name = ''BTCUSDT'', binanceSymbol = ''BTCUSDT'',
                  manipulatedPrice = None, currentPrice = None\<rparr>],
      nextOrderId = 1\<rparr>"

definition example_server :: server where
  "example_server =
     \<lparr>store = example_db, manipulatedPrices = (\<lambda>_. None)(''BTCUSDT'' := Some 200),
      priceCache = (\<lambda>_. None), timers = []\<rparr>"

definition example_request :: order_request where
  "example_request =
     \<lparr>rq_userId = 1, rq_symbolId = 1, rq_symbol = ''BTCUSDT'', rq_amount = 10,
      rq_direction = ''up'', rq_entryPrice = 100, rq_duration = 60\<rparr>"

definition example_order :: order where
  "example_order = new_row 1 (order_of_request 0 example_request)"

definition example_task :: task where
  "example_task = \<lparr>task_request = example_request, task_order = example_order\<rparr>"

definition example_placed :: server where
  "example_placed = snd (postOrder 0 example_request example_server)"

text \<open>The same venue with no price published and none cached, and a price cache that
  holds 100 for the symbol.\<close>

definition example_quiet :: server where
  "example_quiet = example_server\<lparr>manipulatedPrices := (\<lambda>_. None)\<rparr>"

definition example_quiet_placed :: server where
  "example_quiet_placed = snd (postOrder 0 example_request example_quiet)"

definition example_cache :: "string \<Rightarrow> jsnum option" where
  "example_cache = (\<lambda>_. None)(''BTCUSDT'' := Some (Num 100))"

text \<open>A request whose direction is neither "up" nor "down", from an entry price of
  300, placed in the same venue.\<close>

definition sideways_request :: order_request where
  "sideways_request = example_request\<lparr>rq_direction := ''sideways'', rq_entryPrice := 300\<rparr>"

definition sideways_order :: order where
  "sideways_order = new_row 1 (order_of_request 0 sideways_request)"

definition sideways_task :: task where
  "sideways_task = \<lparr>task_request = sideways_request, task_order = sideways_order\<rparr>"

definition sideways_placed :: server where
  "sideways_placed = snd (postOrder 0 sideways_request example_server)"

section \<open>Properties of the price manipulation\<close>

lemma manipulate_cases:
  "manipulate price up down = Some (price * 0.998) \<or>
   manipulate price up down = Some (price * 1.002) \<or>
   manipulate price up down = Some price"
  unfolding manipulate_def quotient_def Let_def by (simp split: if_splits)

lemma manipulate_jitter_cases:
  "manipulate_jitter r price up down = Some (price * 0.998 * (r * 0.0005 + 0.99975)) \<or>
   manipulate_jitter r price up down = Some (price * 1.002 * (r * 0.0005 + 0.99975)) \<or>
   manipulate_jitter r price up down = Some (price * (r * 0.0005 + 0.99975)) \<or>
   manipulate_jitter r price up down = Some price"
  unfolding manipulate_jitter_def quotient_def Let_def by (simp split: if_splits)

lemma manipulate_publish_spec:
  assumes "0 \<le> up" "0 \<le> down"
  shows "manipulate price up down = Some (publish_spec price up down)"
proof (cases "up + down = 0")
  case True
  then show ?thesis by (simp add: manipulate_def publish_spec_def)
next
  case False
  with assms have pos: "0 < up + down" by linarith
  have "down / (up + down) = 1 - up / (up + down)"
    using pos by (simp add: field_simps)
  then show ?thesis
    using pos False by (simp add: manipulate_def publish_spec_def quotient_def Let_def)
qed

text \<open>
  Claim C10. In every variant of the price adjustment the two ratios are computed under
  the guard \<open>totalValue > 0\<close> only: the computation never divides by zero and always
  yields a price, whatever the exposure totals are (non-negative ones in particular).
\<close>

theorem ratios_never_divide_by_zero:
  "(\<exists>p. manipulate price upValue downValue = Some p) \<and>
   (\<exists>p. manipulate_jitter rnd price upValue downValue = Some p)"
  using manipulate_cases [of price upValue downValue]
    manipulate_jitter_cases [of rnd price upValue downValue]
  by auto

text \<open>
  Claim C5. For non-negative exposure the price adjustment of \<open>src/priceHandler.ts\<close>
  and \<open>part_003\<close> computes the algorithm of the specification: the raw price unchanged
  when the total is zero, else times \<open>0.998\<close> when the up ratio exceeds \<open>0.6\<close>, else
  times \<open>1.002\<close> when the down ratio exceeds \<open>0.6\<close>, else unchanged; and this is the
  price that \<open>adjustPrice\<close> returns for a known symbol and a usable fetched price.
\<close>

theorem publish_algorithm:
  assumes "0 \<le> upAmount" and "0 \<le> downAmount"
  shows "manipulate rawPrice upAmount downAmount =
           Some (if upAmount + downAmount = 0 then rawPrice
                 else if upAmount / (upAmount + downAmount) > 0.6 then rawPrice * 0.998
                 else if downAmount / (upAmount + downAmount) > 0.6 then rawPrice * 1.002
                 else rawPrice)
       \<and> manipulate rawPrice upAmount downAmount =
           Some (publish_spec rawPrice upAmount downAmount)
       \<and> (find (\<lambda>row. binanceSymbol row = symbol) (symbols st) = Some symbolData \<longrightarrow>
          usable fetched = Some rawPrice \<longrightarrow>
          getOrderTotals st (symbol_id symbolData) = (upAmount, downAmount) \<longrightarrow>
          fst (adjustPrice fetched symbol st) =
            Some (publish_spec rawPrice upAmount downAmount))"
proof (intro conjI impI)
  show spec: "manipulate rawPrice upAmount downAmount =
      Some (publish_spec rawPrice upAmount downAmount)"
    using assms by (rule manipulate_publish_spec)
  show "manipulate rawPrice upAmount downAmount =
           Some (if upAmount + downAmount = 0 then rawPrice
                 else if upAmount / (upAmount + downAmount) > 0.6 then rawPrice * 0.998
                 else if downAmount / (upAmount + downAmount) > 0.6 then rawPrice * 1.002
                 else rawPrice)"
  proof (cases "upAmount + downAmount = 0")
    case True
    then show ?thesis by (simp add: manipulate_def)
  next
    case False
    with assms have "0 < upAmount + downAmount" by linarith
    then show ?thesis by (simp add: manipulate_def quotient_def Let_def)
  qed
  assume "find (\<lambda>row. binanceSymbol row = symbol) (symbols st) = Some symbolData"
    and "usable fetched = Some rawPrice"
    and "getOrderTotals st (symbol_id symbolData) = (upAmount, downAmount)"
  then show "fst (adjustPrice fetched symbol st) =
      Some (publish_spec rawPrice upAmount downAmount)"
    by (simp add: adjustPrice_def spec)
qed

theorem publish_algorithm_witness:
  "manipulate 100 70 30 = Some 99.8 \<and> manipulate 100 30 70 = Some 100.2 \<and>
   manipulate 100 50 50 = Some 100 \<and> manipulate 100 0 0 = Some 100 \<and>
   fst (adjustPrice (Some (Num 100)) ''BTCUSDT'' example_db) = Some 100"
proof -
  have tot: "getOrderTotals example_db 1 = (0, 0)"
    by (simp add: getOrderTotals_def example_db_def)
  have row: "find (\<lambda>row. binanceSymbol row = ''BTCUSDT'') (symbols example_db) =
      Some \<lparr>symbol_id = 1, symbol_name = ''BTCUSDT'', binanceSymbol = ''BTCUSDT'',
            manipulatedPrice = None, currentPrice = None\<rparr>"
    by (simp add: example_db_def)
  have "fst (adjustPrice (Some (Num 100)) ''BTCUSDT'' example_db) =
      Some (publish_spec 100 0 0)"
    using publish_algorithm [of 0 0 100 "''BTCUSDT''" example_db _ "Some (Num 100)"]
      row tot by simp
  then show ?thesis
    using publish_algorithm [of 70 30 100] publish_algorithm [of 30 70 100]
      publish_algorithm [of 50 50 100] publish_algorithm [of 0 0 100]
    by (simp add: publish_spec_def)
qed

text \<open>
  Claim C8. For every positive raw price the published price lies within 0.3 percent of
  it: \<open>rawPrice * 0.997 \<le> publish \<le> rawPrice * 1.003\<close>, in the variants without jitter
  and, for a random number in \<open>[0, 1)\<close>, in the variant of \<open>part_002\<close> with the jitter
  factor. The bound holds for all exposure totals, among them the non-negative ones
  with a positive sum.
\<close>

theorem publish_within_bounds:
  assumes "0 < rawPrice" and "0 \<le> rnd" and "rnd < 1"
  shows "(\<exists>p. manipulate rawPrice upAmount downAmount = Some p \<and>
             rawPrice * 0.997 \<le> p \<and> p \<le> rawPrice * 1.003)
       \<and> (\<exists>p. manipulate_jitter rnd rawPrice upAmount downAmount = Some p \<and>
             rawPrice * 0.997 \<le> p \<and> p \<le> rawPrice * 1.003)"
proof
  show "\<exists>p. manipulate rawPrice upAmount downAmount = Some p \<and>
             rawPrice * 0.997 \<le> p \<and> p \<le> rawPrice * 1.003"
    using manipulate_cases [of rawPrice upAmount downAmount] assms(1) by auto
next
  let ?f = "rnd * 0.0005 + 0.99975"
  have f: "0.99975 \<le> ?f" "?f \<le> 1.00025" using assms by simp_all
  have plain: "rawPrice * 0.997 \<le> rawPrice" "rawPrice \<le> rawPrice * 1.003"
    using assms by simp_all
  have jit: "rawPrice * 0.997 \<le> rawPrice * ?f" "rawPrice * ?f \<le> rawPrice * 1.003"
    using assms f by simp_all
  have down_lo: "rawPrice * 0.997 \<le> rawPrice * 0.998 * ?f"
  proof -
    have "rawPrice * 0.997 \<le> rawPrice * (0.998 * 0.99975)" using assms by simp
    also have "\<dots> \<le> rawPrice * (0.998 * ?f)" using assms f by simp
    finally show ?thesis by (simp add: mult.assoc)
  qed
  have down_hi: "rawPrice * 0.998 * ?f \<le> rawPrice * 1.003"
  proof -
    have "rawPrice * 0.998 * ?f \<le> rawPrice * ?f" using assms f by simp
    also have "\<dots> \<le> rawPrice * 1.003" by (rule jit)
    finally show ?thesis .
  qed
  have up_lo: "rawPrice * 0.997 \<le> rawPrice * 1.002 * ?f"
  proof -
    have "rawPrice * 0.997 \<le> rawPrice * ?f" by (rule jit)
    also have "\<dots> \<le> rawPrice * 1.002 * ?f" using assms f by simp
    finally show ?thesis .
  qed
  have up_hi: "rawPrice * 1.002 * ?f \<le> rawPrice * 1.003"
  proof -
    have "rawPrice * (1.002 * ?f) \<le> rawPrice * (1.002 * 1.00025)" using assms f by simp
    also have "\<dots> \<le> rawPrice * 1.003" using assms by simp
    finally show ?thesis by (simp add: mult.assoc)
  qed
  from manipulate_jitter_cases [of rnd rawPrice upAmount downAmount]
  show "\<exists>p. manipulate_jitter rnd rawPrice upAmount downAmount = Some p \<and>
             rawPrice * 0.997 \<le> p \<and> p \<le> rawPrice * 1.003"
  proof (elim disjE)
    assume "manipulate_jitter rnd rawPrice upAmount downAmount = Some (rawPrice * 0.998 * ?f)"
    with down_lo down_hi show ?thesis by blast
  next
    assume "manipulate_jitter rnd rawPrice upAmount downAmount = Some (rawPrice * 1.002 * ?f)"
    with up_lo up_hi show ?thesis by blast
  next
    assume "manipulate_jitter rnd rawPrice upAmount downAmount = Some (rawPrice * ?f)"
    with jit show ?thesis by blast
  next
    assume "manipulate_jitter rnd rawPrice upAmount downAmount = Some rawPrice"
    with plain show ?thesis by blast
  qed
qed

theorem publish_within_bounds_witness:
  "manipulate 100 70 30 = Some 99.8 \<and> (100::real) * 0.997 \<le> 99.8 \<and>
   manipulate_jitter 0 100 30 70 = Some 100.17495 \<and> (100.17495::real) \<le> 100 * 1.003"
proof -
  have a: "manipulate 100 70 30 = Some 99.8"
    by (simp add: manipulate_def quotient_def Let_def)
  have b: "manipulate_jitter 0 100 30 70 = Some 100.17495"
    by (simp add: manipulate_jitter_def quotient_def Let_def)
  from publish_within_bounds [of 100 0 70 30] publish_within_bounds [of 100 0 30 70]
  show ?thesis unfolding a b by simp
qed

section \<open>Properties of placing and settling an order\<close>

lemma transaction_settlementOps:
  assumes "order_id (task_order t) \<in> set (map order_id (orders st))"
      and "users st (rq_userId (task_request t)) = Some b"
  shows "transaction (settlementOps t p) st =
           Some (st\<lparr>orders :=
                     map (\<lambda>row. if order_id row = order_id (task_order t)
                                 then settled p (if isWin t p then ''win'' else ''loss'')
                                        (profitLossOf t p) row
                                 else row) (orders st),
                    users := (users st)(rq_userId (task_request t) :=
                      Some (if isWin t p
                            then b + (rq_amount (task_request t) + profitLossOf t p)
                            else b))\<rparr>)"
  using assms by (simp add: settlementOps_def)

lemma commitOutcome_writes:
  assumes "order_id (task_order t) \<in> set (map order_id (orders (store sv)))"
      and "users (store sv) (rq_userId (task_request t)) = Some b"
  shows "commitOutcome t p sv =
           sv\<lparr>store := (store sv)\<lparr>orders :=
                     map (\<lambda>row. if order_id row = order_id (task_order t)
                                 then settled p (if isWin t p then ''win'' else ''loss'')
                                        (profitLossOf t p) row
                                 else row) (orders (store sv)),
                    users := (users (store sv))(rq_userId (task_request t) :=
                      Some (if isWin t p
                            then b + (rq_amount (task_request t) + profitLossOf t p)
                            else b))\<rparr>\<rparr>"
  using transaction_settlementOps [OF assms, of p] by (simp add: commitOutcome_def)

lemma postOrder_accepted:
  assumes "postOrder now rq sv = (Status201 ord, sv')"
  shows "ord = new_row (nextOrderId (store sv)) (order_of_request now rq)"
    and "\<exists>b. users (store sv) (rq_userId rq) = Some b \<and> rq_amount rq \<le> b \<and>
           users (store sv') = (users (store sv))(rq_userId rq := Some (b - rq_amount rq))"
    and "orders (store sv') = orders (store sv) @ [ord]"
    and "timers sv' = timers sv @ [(rq_duration rq * 1000, \<lparr>task_request = rq, task_order = ord\<rparr>)]"
    and "manipulatedPrices sv' = manipulatedPrices sv" "priceCache sv' = priceCache sv"
  using assms
  by (auto simp: postOrder_def Let_def split: if_splits option.splits)

lemma commitOutcome_frame:
  "manipulatedPrices (commitOutcome t p sv) = manipulatedPrices sv"
  "priceCache (commitOutcome t p sv) = priceCache sv"
  "timers (commitOutcome t p sv) = timers sv"
  by (simp_all add: commitOutcome_def split: option.splits)

lemma settleTrade_frame:
  "manipulatedPrices (settleTrade t sv) = manipulatedPrices sv"
  "priceCache (settleTrade t sv) = priceCache sv"
  "timers (settleTrade t sv) = timers sv"
  by (simp_all add: settleTrade_def commitOutcome_frame split: option.splits prod.splits)

lemma commitOutcome_store:
  assumes "order_id (task_order t) \<in> set (map order_id (orders (store sv)))"
      and "users (store sv) (rq_userId (task_request t)) = Some b"
  shows "orders (store (commitOutcome t p sv)) =
           map (\<lambda>row. if order_id row = order_id (task_order t)
                       then settled p (if isWin t p then ''win'' else ''loss'')
                              (profitLossOf t p) row
                       else row) (orders (store sv))"
    and "users (store (commitOutcome t p sv)) =
           (users (store sv))(rq_userId (task_request t) :=
              Some (if isWin t p then b + (rq_amount (task_request t) + profitLossOf t p)
                    else b))"
  using transaction_settlementOps [OF assms, of p] by (simp_all add: commitOutcome_def)

lemma map_settled_ids:
  "map order_id (map (\<lambda>row. if order_id row = i then settled p out pl row else row) rows) =
   map order_id rows"
  by (induction rows) (simp_all add: settled_def)

lemma map_settled_outcome:
  "map outcome (filter (\<lambda>r. order_id r = i)
     (map (\<lambda>row. if order_id row = i then settled p out pl row else row) rows)) =
   map (\<lambda>r. Some out) (filter (\<lambda>r. order_id r = i) rows)"
  by (induction rows) (simp_all add: settled_def)

lemma readPrice_frame:
  "manipulatedPrices sv' = manipulatedPrices sv \<Longrightarrow> priceCache sv' = priceCache sv \<Longrightarrow>
   readPrice sv' symbol = readPrice sv symbol"
  by (simp add: readPrice_def split: option.splits)

lemma commitOutcome_twice:
  assumes row: "order_id (task_order t) \<in> set (map order_id (orders (store sv)))"
      and user: "users (store sv) (rq_userId (task_request t)) = Some b"
  shows "orders (store (commitOutcome t q2 (commitOutcome t q1 sv))) =
           map (\<lambda>row. if order_id row = order_id (task_order t)
                       then settled q2 (if isWin t q2 then ''win'' else ''loss'')
                              (profitLossOf t q2) row
                       else row)
             (map (\<lambda>row. if order_id row = order_id (task_order t)
                         then settled q1 (if isWin t q1 then ''win'' else ''loss'')
                                (profitLossOf t q1) row
                         else row) (orders (store sv)))"
    and "users (store (commitOutcome t q2 (commitOutcome t q1 sv))) =
           (users (store sv))(rq_userId (task_request t) :=
              Some (b + (if isWin t q1
                         then rq_amount (task_request t) + profitLossOf t q1 else 0)
                      + (if isWin t q2
                         then rq_amount (task_request t) + profitLossOf t q2 else 0)))"
proof -
  let ?sv' = "commitOutcome t q1 sv"
  let ?c1 = "if isWin t q1 then rq_amount (task_request t) + profitLossOf t q1 else 0"
  note o1 = commitOutcome_store(1) [OF row user, of q1]
  note u1 = commitOutcome_store(2) [OF row user, of q1]
  have row': "order_id (task_order t) \<in> set (map order_id (orders (store ?sv')))"
    unfolding o1 map_settled_ids by (rule row)
  have user': "users (store ?sv') (rq_userId (task_request t)) = Some (b + ?c1)"
    unfolding u1 by simp
  show "orders (store (commitOutcome t q2 ?sv')) =
           map (\<lambda>row. if order_id row = order_id (task_order t)
                       then settled q2 (if isWin t q2 then ''win'' else ''loss'')
                              (profitLossOf t q2) row
                       else row)
             (map (\<lambda>row. if order_id row = order_id (task_order t)
                         then settled q1 (if isWin t q1 then ''win'' else ''loss'')
                                (profitLossOf t q1) row
                         else row) (orders (store sv)))"
    unfolding commitOutcome_store(1) [OF row' user', of q2] o1 by (rule refl)
  show "users (store (commitOutcome t q2 ?sv')) =
           (users (store sv))(rq_userId (task_request t) :=
              Some (b + ?c1
                      + (if isWin t q2
                         then rq_amount (task_request t) + profitLossOf t q2 else 0)))"
    unfolding commitOutcome_store(2) [OF row' user', of q2] u1 by simp
qed

lemma commitOutcome_once:
  assumes row: "order_id (task_order t) \<in> set (map order_id (orders (store sv)))"
      and user: "users (store sv) (rq_userId (task_request t)) = Some b"
  shows "users (store (commitOutcome t q sv)) =
           (users (store sv))(rq_userId (task_request t) :=
              Some (b + (if isWin t q
                         then rq_amount (task_request t) + profitLossOf t q else 0)))"
  unfolding commitOutcome_store(2) [OF row user, of q] by simp

lemma settleTrade_run:
  assumes price: "readPrice sv (rq_symbol (task_request t)) = Some price"
      and tot: "getOrderTotals (store sv) (rq_symbolId (task_request t)) = (u, d)"
  shows "settleTrade t sv = commitOutcome t (lastSecond price u d) sv"
  unfolding settleTrade_def price tot by simp

lemma settleTrade_realTime_run:
  assumes "manipulatedPrices sv (rq_symbol (task_request t)) = Some p" and "p \<noteq> 0"
  shows "settleTrade_realTime t sv = commitOutcome t p sv"
  unfolding settleTrade_realTime_def assms(1) using assms(2) by simp

lemma example_postOrder:
  "postOrder 0 example_request example_server = (Status201 example_order, example_placed)"
  by (simp add: example_placed_def postOrder_def example_request_def example_server_def
      example_db_def example_order_def Let_def)

lemma example_placed_eq:
  "example_placed =
     \<lparr>store = \<lparr>users = (\<lambda>_. None)(1 := Some 90), orders = [example_order],
      symbols = [\<lparr>symbol_id = 1, symbol_name = ''BTCUSDT'', binanceSymbol = ''BTCUSDT'',
                  manipulatedPrice = None, currentPrice = None\<rparr>],
      nextOrderId = 2\<rparr>, manipulatedPrices = (\<lambda>_. None)(''BTCUSDT'' := Some 200),
      priceCache = (\<lambda>_. None), timers = [(60000, example_task)]\<rparr>"
  by (simp add: example_placed_def postOrder_def example_request_def example_server_def
      example_db_def example_order_def example_task_def Let_def)

lemma example_once:
  "settleTrade example_task example_placed =
     \<lparr>store = \<lparr>users = (\<lambda>_. None)(1 := Some 108),
        orders = [settled 199.6 ''win'' 8 example_order],
      symbols = [\<lparr>symbol_id = 1, symbol_name = ''BTCUSDT'', binanceSymbol = ''BTCUSDT'',
                  manipulatedPrice = None, currentPrice = None\<rparr>],
      nextOrderId = 2\<rparr>, manipulatedPrices = (\<lambda>_. None)(''BTCUSDT'' := Some 200),
      priceCache = (\<lambda>_. None), timers = [(60000, example_task)]\<rparr>"
  unfolding example_placed_eq
  by (simp add: settleTrade_def readPrice_def getOrderTotals_def lastSecond_def
      commitOutcome_def settlementOps_def isWin_def profitLossOf_def
      example_task_def example_request_def example_order_def new_row_def order_of_request_def)

lemma example_twice:
  "users (store (settleTrade example_task (settleTrade example_task example_placed))) 1 = Some 126"
  unfolding example_once
  by (simp add: settleTrade_def readPrice_def getOrderTotals_def lastSecond_def
      commitOutcome_def settlementOps_def isWin_def profitLossOf_def settled_def
      example_task_def example_request_def example_order_def new_row_def order_of_request_def)

text \<open>
  An order placed by the intake with direction "up" or "down" is settled, when a price is
  read and the rows of the order and of the user exist, as follows: the outcome is "win"
  exactly if (up and settlement price above the entry price) or (down and settlement
  price below the entry price), and "loss" otherwise, a tie included; the profit or loss
  is the amount times the payout ratio on a win and minus the amount on a loss; the
  balance is credited with amount plus profit on a win and is unchanged on a loss.
\<close>

lemma settlement_outcome:
  assumes placed: "postOrder now rq sv0 = (Status201 ord, sv1)"
      and dir: "rq_direction rq = ''up'' \<or> rq_direction rq = ''down''"
      and price: "readPrice sv (rq_symbol rq) = Some price"
      and totals: "getOrderTotals (store sv) (rq_symbolId rq) = (upValue, downValue)"
      and user: "users (store sv) (rq_userId rq) = Some balance"
      and row: "order_id ord \<in> set (map order_id (orders (store sv)))"
      and sp: "settlementPrice = lastSecond price upValue downValue"
      and win: "win = (direction ord = ''up'' \<and> settlementPrice > entryPrice ord \<or>
                       direction ord = ''down'' \<and> settlementPrice < entryPrice ord)"
      and pl: "pl = (if win then amount ord * payout ord else - amount ord)"
  shows "orders (store (settleTrade \<lparr>task_request = rq, task_order = ord\<rparr> sv)) =
           map (\<lambda>r. if order_id r = order_id ord
                      then r\<lparr>exitPrice := Some settlementPrice,
                             manipulatedExitPrice := Some settlementPrice,
                             outcome := Some (if win then ''win'' else ''loss''),
                             profitLoss := Some pl\<rparr>
                      else r) (orders (store sv))
         \<and> users (store (settleTrade \<lparr>task_request = rq, task_order = ord\<rparr> sv)) =
             (users (store sv))(rq_userId rq :=
                Some (if win then balance + (amount ord + pl) else balance))"
proof -
  let ?t = "\<lparr>task_request = rq, task_order = ord\<rparr>"
  have ord: "ord = new_row (nextOrderId (store sv0)) (order_of_request now rq)"
    using postOrder_accepted(1) [OF placed] .
  have cols: "direction ord = rq_direction rq" "entryPrice ord = rq_entryPrice rq"
    "manipulatedEntryPrice ord = rq_entryPrice rq" "amount ord = rq_amount rq"
    "payout ord = 0.8"
    by (simp_all add: ord new_row_def order_of_request_def)
  have w: "isWin ?t settlementPrice = win"
    using dir by (auto simp: isWin_def win cols)
  have p: "profitLossOf ?t settlementPrice = pl"
    by (simp add: profitLossOf_def w pl cols)
  have "settleTrade ?t sv = commitOutcome ?t settlementPrice sv"
    by (simp add: settleTrade_def price totals sp)
  also have "\<dots> = sv\<lparr>store := (store sv)\<lparr>orders :=
                     map (\<lambda>row. if order_id row = order_id (task_order ?t)
                                 then settled settlementPrice (if isWin ?t settlementPrice then ''win'' else ''loss'')
                                        (profitLossOf ?t settlementPrice) row
                                 else row) (orders (store sv)),
                    users := (users (store sv))(rq_userId (task_request ?t) :=
                      Some (if isWin ?t settlementPrice
                            then balance + (rq_amount (task_request ?t) + profitLossOf ?t settlementPrice)
                            else balance))\<rparr>\<rparr>"
    by (rule commitOutcome_writes) (use row user in simp_all)
  finally show ?thesis
    by (simp add: w p cols settled_def)
qed

lemma settlement_outcome_example:
  "orders (store (settleTrade example_task example_placed)) =
     [example_order\<lparr>exitPrice := Some 199.6, manipulatedExitPrice := Some 199.6,
        outcome := Some ''win'', profitLoss := Some 8\<rparr>]
   \<and> users (store (settleTrade example_task example_placed)) 1 = Some 108"
proof -
  have tot: "getOrderTotals (store example_placed) (rq_symbolId example_request) = (10, 0)"
    by (simp add: example_placed_eq getOrderTotals_def example_request_def example_order_def
        new_row_def order_of_request_def)
  have rp: "readPrice example_placed (rq_symbol example_request) = Some 200"
    by (simp add: example_placed_eq readPrice_def example_request_def)
  have cols: "direction example_order = ''up''" "entryPrice example_order = 100"
    "amount example_order = 10" "payout example_order = 0.8" "order_id example_order = 1"
    by (simp_all add: example_order_def new_row_def order_of_request_def example_request_def)
  have usr: "users (store example_placed) (rq_userId example_request) = Some 90"
    by (simp add: example_placed_eq example_request_def)
  have row: "order_id example_order \<in> set (map order_id (orders (store example_placed)))"
    by (simp add: example_placed_eq)
  have dir: "rq_direction example_request = ''up'' \<or> rq_direction example_request = ''down''"
    by (simp add: example_request_def)
  have ls: "lastSecond 200 10 0 = 199.6" by (simp add: lastSecond_def)
  note settlement_outcome [OF example_postOrder dir rp tot usr row refl refl refl]
  then show ?thesis
    by (simp add: ls cols example_placed_eq example_request_def example_task_def)
qed

lemma sideways_placed_eq:
  "sideways_placed =
     \<lparr>store = \<lparr>users = (\<lambda>_. None)(1 := Some 90), orders = [sideways_order],
      symbols = [\<lparr>symbol_id = 1, symbol_name = ''BTCUSDT'', binanceSymbol = ''BTCUSDT'',
                  manipulatedPrice = None, currentPrice = None\<rparr>],
      nextOrderId = 2\<rparr>, manipulatedPrices = (\<lambda>_. None)(''BTCUSDT'' := Some 200),
      priceCache = (\<lambda>_. None), timers = [(60000, sideways_task)]\<rparr>"
  by (simp add: sideways_placed_def postOrder_def sideways_request_def example_request_def
      example_server_def example_db_def sideways_order_def sideways_task_def Let_def)

text \<open>
  Claim C2 on an order whose direction is neither "up" nor "down". The intake tests only
  that the direction is not empty and accepts the direction "sideways"; the exposure
  totals count the order on neither side; the settlement tests the direction against
  "up" alone and treats every other text as "down". With an entry price of 300 and a
  settlement price of 200 the order is settled as a win with a profit of 8, and the
  balance is credited with 18, where the rule of the claim gives a loss and no credit.
\<close>

theorem settlement_sideways_order:
  "fst (postOrder 0 sideways_request example_server) = Status201 sideways_order
   \<and> direction sideways_order = ''sideways''
   \<and> entryPrice sideways_order = 300
   \<and> amount sideways_order = 10
   \<and> users (store sideways_placed) 1 = Some 90
   \<and> readPrice sideways_placed ''BTCUSDT'' = Some 200
   \<and> getOrderTotals (store sideways_placed) 1 = (0, 0)
   \<and> map exitPrice (orders (store (settleTrade sideways_task sideways_placed))) = [Some 200]
   \<and> map outcome (orders (store (settleTrade sideways_task sideways_placed))) = [Some ''win'']
   \<and> map profitLoss (orders (store (settleTrade sideways_task sideways_placed))) = [Some 8]
   \<and> users (store (settleTrade sideways_task sideways_placed)) 1 = Some 108"
proof -
  have cols: "direction sideways_order = ''sideways''" "entryPrice sideways_order = 300"
    "amount sideways_order = 10" "order_id sideways_order = 1"
    "symbolId sideways_order = 1" "outcome sideways_order = None"
    "manipulatedEntryPrice sideways_order = 300"
    by (simp_all add: sideways_order_def new_row_def order_of_request_def sideways_request_def
        example_request_def)
  have sel: "rq_symbol (task_request sideways_task) = ''BTCUSDT''"
    "rq_symbolId (task_request sideways_task) = 1"
    "rq_userId (task_request sideways_task) = 1"
    "rq_amount (task_request sideways_task) = 10"
    "rq_direction (task_request sideways_task) = ''sideways''"
    "task_order sideways_task = sideways_order"
    by (simp_all add: sideways_task_def sideways_request_def example_request_def)
  have a: "fst (postOrder 0 sideways_request example_server) = Status201 sideways_order"
    by (simp add: postOrder_def sideways_request_def example_request_def example_server_def
        example_db_def sideways_order_def Let_def)
  have u: "users (store sideways_placed) 1 = Some 90"
    by (simp add: sideways_placed_eq)
  have rp: "readPrice sideways_placed ''BTCUSDT'' = Some 200"
    by (simp add: sideways_placed_eq readPrice_def)
  have tot: "getOrderTotals (store sideways_placed) 1 = (0, 0)"
    by (simp add: sideways_placed_eq getOrderTotals_def cols)
  have ls: "lastSecond 200 0 0 = 200" by (simp add: lastSecond_def)
  have run: "settleTrade sideways_task sideways_placed =
      commitOutcome sideways_task 200 sideways_placed"
    using settleTrade_run [of sideways_placed sideways_task 200 0 0] rp tot
    by (simp add: sel ls)
  have w: "isWin sideways_task 200" by (simp add: isWin_def sel cols)
  have pl: "profitLossOf sideways_task 200 = 8" by (simp add: profitLossOf_def w sel)
  have row: "order_id (task_order sideways_task) \<in>
      set (map order_id (orders (store sideways_placed)))"
    by (simp add: sel sideways_placed_eq)
  have usr: "users (store sideways_placed) (rq_userId (task_request sideways_task)) = Some 90"
    using u by (simp add: sel)
  have os: "orders (store (settleTrade sideways_task sideways_placed)) =
      [settled 200 ''win'' 8 sideways_order]"
    unfolding run commitOutcome_store(1) [OF row usr]
    by (simp add: sideways_placed_eq sel cols w pl)
  have us: "users (store (settleTrade sideways_task sideways_placed)) 1 = Some 108"
    unfolding run commitOutcome_store(2) [OF row usr]
    by (simp add: sel w pl)
  show ?thesis
    using a cols(1-3) u rp tot us by (simp add: os settled_def)
qed

text \<open>
  Claim C1, as the code has it. The intake arms one settlement timer for each order it
  accepts. The settling transaction does not look at the outcome that the order has:
  every run that finds a price, the row of the order and the row of the user writes exit
  price, outcome and profit or loss again, whatever the direction and whether it is a win
  or a loss, and on a win credits amount plus profit again. Two runs for the same order
  are two writes and, for each run that is a win, one credit; the second run is not
  a no-op. This holds for the callback of \<open>server.ts\<close>, which computes each run's price from
  the exposure of that moment, and for the callback of \<open>part_001\<close>, which takes the
  published price.
\<close>

theorem settlement_not_guarded:
  assumes price: "readPrice sv (rq_symbol (task_request t)) = Some price"
      and user: "users (store sv) (rq_userId (task_request t)) = Some b"
      and row: "order_id (task_order t) \<in> set (map order_id (orders (store sv)))"
      and first: "getOrderTotals (store sv) (rq_symbolId (task_request t)) = (up1, down1)"
      and second: "getOrderTotals (store (settleTrade t sv)) (rq_symbolId (task_request t)) =
                     (up2, down2)"
      and q1: "q1 = lastSecond price up1 down1"
      and q2: "q2 = lastSecond price up2 down2"
  shows "(\<forall>now rq sv0 ord sv1. postOrder now rq sv0 = (Status201 ord, sv1) \<longrightarrow>
            timers sv1 = timers sv0 @
              [(rq_duration rq * 1000, \<lparr>task_request = rq, task_order = ord\<rparr>)])
       \<and> orders (store (settleTrade t sv)) =
           map (\<lambda>row. if order_id row = order_id (task_order t)
                       then settled q1 (if isWin t q1 then ''win'' else ''loss'')
                              (profitLossOf t q1) row
                       else row) (orders (store sv))
       \<and> users (store (settleTrade t sv)) =
           (users (store sv))(rq_userId (task_request t) :=
              Some (b + (if isWin t q1
                         then rq_amount (task_request t) + profitLossOf t q1 else 0)))
       \<and> orders (store (settleTrade t (settleTrade t sv))) =
           map (\<lambda>row. if order_id row = order_id (task_order t)
                       then settled q2 (if isWin t q2 then ''win'' else ''loss'')
                              (profitLossOf t q2) row
                       else row)
             (map (\<lambda>row. if order_id row = order_id (task_order t)
                         then settled q1 (if isWin t q1 then ''win'' else ''loss'')
                                (profitLossOf t q1) row
                         else row) (orders (store sv)))
       \<and> users (store (settleTrade t (settleTrade t sv))) =
           (users (store sv))(rq_userId (task_request t) :=
              Some (b + (if isWin t q1
                         then rq_amount (task_request t) + profitLossOf t q1 else 0)
                      + (if isWin t q2
                         then rq_amount (task_request t) + profitLossOf t q2 else 0)))
       \<and> (\<forall>p. manipulatedPrices sv (rq_symbol (task_request t)) = Some p \<and> p \<noteq> 0 \<longrightarrow>
            orders (store (settleTrade_realTime t sv)) =
              map (\<lambda>row. if order_id row = order_id (task_order t)
                          then settled p (if isWin t p then ''win'' else ''loss'')
                                 (profitLossOf t p) row
                          else row) (orders (store sv))
          \<and> users (store (settleTrade_realTime t sv)) =
              (users (store sv))(rq_userId (task_request t) :=
                 Some (b + (if isWin t p
                            then rq_amount (task_request t) + profitLossOf t p else 0)))
          \<and> orders (store (settleTrade_realTime t (settleTrade_realTime t sv))) =
              map (\<lambda>row. if order_id row = order_id (task_order t)
                          then settled p (if isWin t p then ''win'' else ''loss'')
                                 (profitLossOf t p) row
                          else row)
                (map (\<lambda>row. if order_id row = order_id (task_order t)
                            then settled p (if isWin t p then ''win'' else ''loss'')
                                   (profitLossOf t p) row
                            else row) (orders (store sv)))
          \<and> users (store (settleTrade_realTime t (settleTrade_realTime t sv))) =
              (users (store sv))(rq_userId (task_request t) :=
                 Some (b + (if isWin t p
                            then rq_amount (task_request t) + profitLossOf t p else 0)
                         + (if isWin t p
                            then rq_amount (task_request t) + profitLossOf t p else 0))))"
proof (intro conjI allI impI)
  fix now rq sv0 ord sv1
  assume "postOrder now rq sv0 = (Status201 ord, sv1)"
  then show "timers sv1 = timers sv0 @
      [(rq_duration rq * 1000, \<lparr>task_request = rq, task_order = ord\<rparr>)]"
    by (rule postOrder_accepted(4))
next
  have run1: "settleTrade t sv = commitOutcome t q1 sv"
    unfolding q1 by (rule settleTrade_run [OF price first])
  have price': "readPrice (commitOutcome t q1 sv) (rq_symbol (task_request t)) = Some price"
    unfolding readPrice_frame [OF commitOutcome_frame(1) commitOutcome_frame(2)]
    by (rule price)
  have second': "getOrderTotals (store (commitOutcome t q1 sv))
      (rq_symbolId (task_request t)) = (up2, down2)"
    using second unfolding run1 .
  have run2: "settleTrade t (settleTrade t sv) = commitOutcome t q2 (commitOutcome t q1 sv)"
    unfolding run1 q2 by (rule settleTrade_run [OF price' second'])
  show "orders (store (settleTrade t sv)) =
           map (\<lambda>row. if order_id row = order_id (task_order t)
                       then settled q1 (if isWin t q1 then ''win'' else ''loss'')
                              (profitLossOf t q1) row
                       else row) (orders (store sv))"
    unfolding run1 by (rule commitOutcome_store(1) [OF row user])
  show "users (store (settleTrade t sv)) =
           (users (store sv))(rq_userId (task_request t) :=
              Some (b + (if isWin t q1
                         then rq_amount (task_request t) + profitLossOf t q1 else 0)))"
    unfolding run1 by (rule commitOutcome_once [OF row user])
  show "orders (store (settleTrade t (settleTrade t sv))) =
           map (\<lambda>row. if order_id row = order_id (task_order t)
                       then settled q2 (if isWin t q2 then ''win'' else ''loss'')
                              (profitLossOf t q2) row
                       else row)
             (map (\<lambda>row. if order_id row = order_id (task_order t)
                         then settled q1 (if isWin t q1 then ''win'' else ''loss'')
                                (profitLossOf t q1) row
                         else row) (orders (store sv)))"
    unfolding run2 by (rule commitOutcome_twice(1) [OF row user])
  show "users (store (settleTrade t (settleTrade t sv))) =
           (users (store sv))(rq_userId (task_request t) :=
              Some (b + (if isWin t q1
                         then rq_amount (task_request t) + profitLossOf t q1 else 0)
                      + (if isWin t q2
                         then rq_amount (task_request t) + profitLossOf t q2 else 0)))"
    unfolding run2 by (rule commitOutcome_twice(2) [OF row user])
next
  fix p
  assume pub: "manipulatedPrices sv (rq_symbol (task_request t)) = Some p \<and> p \<noteq> 0"
  then have pub1: "manipulatedPrices sv (rq_symbol (task_request t)) = Some p"
    and nz: "p \<noteq> 0"
    by blast+
  have run1: "settleTrade_realTime t sv = commitOutcome t p sv"
    by (rule settleTrade_realTime_run [OF pub1 nz])
  have pub': "manipulatedPrices (commitOutcome t p sv) (rq_symbol (task_request t)) = Some p"
    unfolding commitOutcome_frame(1) by (rule pub1)
  have run2: "settleTrade_realTime t (settleTrade_realTime t sv) =
      commitOutcome t p (commitOutcome t p sv)"
    unfolding run1 by (rule settleTrade_realTime_run [OF pub' nz])
  show "orders (store (settleTrade_realTime t sv)) =
              map (\<lambda>row. if order_id row = order_id (task_order t)
                          then settled p (if isWin t p then ''win'' else ''loss'')
                                 (profitLossOf t p) row
                          else row) (orders (store sv))"
    unfolding run1 by (rule commitOutcome_store(1) [OF row user])
  show "users (store (settleTrade_realTime t sv)) =
              (users (store sv))(rq_userId (task_request t) :=
                 Some (b + (if isWin t p
                            then rq_amount (task_request t) + profitLossOf t p else 0)))"
    unfolding run1 by (rule commitOutcome_once [OF row user])
  show "orders (store (settleTrade_realTime t (settleTrade_realTime t sv))) =
              map (\<lambda>row. if order_id row = order_id (task_order t)
                          then settled p (if isWin t p then ''win'' else ''loss'')
                                 (profitLossOf t p) row
                          else row)
                (map (\<lambda>row. if order_id row = order_id (task_order t)
                            then settled p (if isWin t p then ''win'' else ''loss'')
                                   (profitLossOf t p) row
                            else row) (orders (store sv)))"
    unfolding run2 by (rule commitOutcome_twice(1) [OF row user])
  show "users (store (settleTrade_realTime t (settleTrade_realTime t sv))) =
              (users (store sv))(rq_userId (task_request t) :=
                 Some (b + (if isWin t p
                            then rq_amount (task_request t) + profitLossOf t p else 0)
                         + (if isWin t p
                            then rq_amount (task_request t) + profitLossOf t p else 0)))"
    unfolding run2 by (rule commitOutcome_twice(2) [OF row user])
qed

theorem settlement_not_guarded_witness:
  "timers example_placed = [(60000, example_task)]
   \<and> users (store (settleTrade example_task example_placed)) 1 = Some 108
   \<and> users (store (settleTrade example_task (settleTrade example_task example_placed))) 1
       = Some 126
   \<and> users (store (settleTrade_realTime example_task
        (settleTrade_realTime example_task example_placed))) 1 = Some 126"
proof -
  have sel: "rq_symbol (task_request example_task) = ''BTCUSDT''"
    "rq_symbolId (task_request example_task) = 1"
    "rq_userId (task_request example_task) = 1"
    "rq_amount (task_request example_task) = 10"
    "order_id (task_order example_task) = 1"
    by (simp_all add: example_task_def example_request_def example_order_def new_row_def)
  have rp: "readPrice example_placed (rq_symbol (task_request example_task)) = Some 200"
    unfolding sel by (simp add: example_placed_eq readPrice_def)
  have pub: "manipulatedPrices example_placed (rq_symbol (task_request example_task)) =
      Some 200"
    unfolding sel by (simp add: example_placed_eq)
  have usr: "users (store example_placed) (rq_userId (task_request example_task)) = Some 90"
    unfolding sel by (simp add: example_placed_eq)
  have row: "order_id (task_order example_task) \<in>
      set (map order_id (orders (store example_placed)))"
    unfolding sel by (simp add: example_placed_eq example_order_def new_row_def)
  have tot1: "getOrderTotals (store example_placed) (rq_symbolId (task_request example_task))
      = (10, 0)"
    unfolding sel
    by (simp add: example_placed_eq getOrderTotals_def example_request_def example_order_def
        new_row_def order_of_request_def)
  have tot2: "getOrderTotals (store (settleTrade example_task example_placed))
      (rq_symbolId (task_request example_task)) = (0, 0)"
    unfolding sel example_once
    by (simp add: getOrderTotals_def settled_def)
  have q: "lastSecond 200 10 0 = 199.6" "lastSecond 200 0 0 = 200"
    by (simp_all add: lastSecond_def)
  have entry: "rq_direction (task_request example_task) = ''up''"
    "manipulatedEntryPrice (task_order example_task) = 100"
    by (simp_all add: example_task_def example_request_def example_order_def
        new_row_def order_of_request_def)
  have w: "isWin example_task 199.6" "isWin example_task 200"
    unfolding isWin_def entry by simp_all
  have pl: "profitLossOf example_task 199.6 = 8" "profitLossOf example_task 200 = 8"
    unfolding profitLossOf_def using w by (simp_all add: sel)
  note th = settlement_not_guarded [OF rp usr row tot1 tot2 refl refl, unfolded q sel]
  have a: "timers example_placed = [(60000, example_task)]"
    using th [THEN conjunct1] example_postOrder
    by (simp add: example_server_def example_request_def example_task_def)
  have b: "users (store (settleTrade example_task example_placed)) 1 = Some 108"
    using th [THEN conjunct2, THEN conjunct2, THEN conjunct1] w pl by simp
  have c: "users (store (settleTrade example_task (settleTrade example_task example_placed))) 1
       = Some 126"
    using th [THEN conjunct2, THEN conjunct2, THEN conjunct2, THEN conjunct2, THEN conjunct1]
      w pl
    by simp
  have d: "users (store (settleTrade_realTime example_task
        (settleTrade_realTime example_task example_placed))) 1 = Some 126"
    using th [THEN conjunct2, THEN conjunct2, THEN conjunct2, THEN conjunct2, THEN conjunct2,
        rule_format, of 200] pub [unfolded sel] w pl
    by simp
  from a b c d show ?thesis by (intro conjI)
qed

text \<open>
  Claim C1 as stated fails: in the small venue the order is open and the balance is 90
  after the intake; one run of the settlement writes "win" and credits 18; a second run
  for the same order credits 18 again.
\<close>

theorem settlement_twice_counterexample:
  "outcome example_order = None
   \<and> users (store example_placed) 1 = Some 90
   \<and> users (store (settleTrade example_task example_placed)) 1 = Some 108
   \<and> map outcome (orders (store (settleTrade example_task example_placed))) = [Some ''win'']
   \<and> users (store (settleTrade example_task (settleTrade example_task example_placed))) 1
       = Some 126"
proof -
  have a: "outcome example_order = None"
    by (simp add: example_order_def new_row_def)
  have b: "users (store example_placed) 1 = Some 90"
    by (simp add: example_placed_eq)
  have c: "users (store (settleTrade example_task example_placed)) 1 = Some 108"
    by (simp add: example_once)
  have d: "map outcome (orders (store (settleTrade example_task example_placed))) =
             [Some ''win'']"
    by (simp add: example_once settled_def)
  from a b c d example_twice show ?thesis by (intro conjI)
qed

subsection \<open>The settlement price\<close>

lemma lastSecond_vs_publish:
  assumes "0 \<le> up" "0 \<le> down" "price \<noteq> 0"
  shows "(lastSecond price up down = publish_spec price up down) =
         (up = down \<or> up / (up + down) > 0.6 \<or> down / (up + down) > 0.6)"
proof (cases "up + down = 0")
  case True
  with assms have "up = 0" "down = 0" by linarith+
  then show ?thesis by (simp add: lastSecond_def publish_spec_def)
next
  case False
  with assms have pos: "0 < up + down" by linarith
  have d: "down / (up + down) = 1 - up / (up + down)"
    using pos by (simp add: field_simps)
  have u6: "(up / (up + down) > 0.6) = (up * 2 > down * 3)"
    using pos by (simp add: field_simps)
  have d6: "(1 - up / (up + down) > 0.6) = (down * 2 > up * 3)"
    using pos by (simp add: field_simps)
  show ?thesis
    unfolding d using False assms u6 d6
    by (auto simp: lastSecond_def publish_spec_def Let_def)
qed

lemma readPrice_nonzero: "readPrice sv symbol = Some p \<Longrightarrow> p \<noteq> 0"
  by (cases "priceCache sv symbol" rule: usable.cases)
     (auto simp: readPrice_def getCurrentPrice_def split: option.splits if_splits)

lemma map_settled_exitPrice:
  "map exitPrice (filter (\<lambda>r. order_id r = i)
     (map (\<lambda>row. if order_id row = i then settled p out pl row else row) rows)) =
   map (\<lambda>r. Some p) (filter (\<lambda>r. order_id r = i) rows)"
  by (induction rows) (simp_all add: settled_def)

text \<open>
  Claim C3, as the code has it. The settlement price is not computed by the publishing
  algorithm but by a rule of its own: the price read when the timer fires is multiplied by
  \<open>0.998\<close> when \<open>upValue > downValue\<close>, by \<open>1.002\<close> when \<open>downValue > upValue\<close>, and left
  as it is when the two are equal, the exposure being the one of the store at that moment.
  This price is written as exit price and decides the outcome. For non-negative exposure
  it equals the publishing algorithm on the same price exactly when the two sides are
  equal or the ratio of one side exceeds \<open>0.6\<close>.
\<close>

theorem settlement_price_rule:
  assumes price: "readPrice sv (rq_symbol (task_request t)) = Some price"
      and totals: "getOrderTotals (store sv) (rq_symbolId (task_request t)) =
                     (upValue, downValue)"
      and user: "users (store sv) (rq_userId (task_request t)) = Some b"
      and row: "order_id (task_order t) \<in> set (map order_id (orders (store sv)))"
  shows "map exitPrice (filter (\<lambda>r. order_id r = order_id (task_order t))
            (orders (store (settleTrade t sv)))) =
         map (\<lambda>r. Some (lastSecond price upValue downValue))
            (filter (\<lambda>r. order_id r = order_id (task_order t)) (orders (store sv)))
       \<and> map outcome (filter (\<lambda>r. order_id r = order_id (task_order t))
            (orders (store (settleTrade t sv)))) =
         map (\<lambda>r. Some (if isWin t (lastSecond price upValue downValue)
                          then ''win'' else ''loss''))
            (filter (\<lambda>r. order_id r = order_id (task_order t)) (orders (store sv)))
       \<and> lastSecond price upValue downValue =
           (if upValue > downValue then price * 0.998
            else if downValue > upValue then price * 1.002 else price)
       \<and> (0 \<le> upValue \<longrightarrow> 0 \<le> downValue \<longrightarrow>
            (lastSecond price upValue downValue = publish_spec price upValue downValue) =
            (upValue = downValue \<or> upValue / (upValue + downValue) > 0.6 \<or>
             downValue / (upValue + downValue) > 0.6))"
proof -
  let ?q = "lastSecond price upValue downValue"
  have eq: "settleTrade t sv = commitOutcome t ?q sv"
    by (simp add: settleTrade_def price totals)
  have a: "map exitPrice (filter (\<lambda>r. order_id r = order_id (task_order t))
            (orders (store (settleTrade t sv)))) =
         map (\<lambda>r. Some ?q)
            (filter (\<lambda>r. order_id r = order_id (task_order t)) (orders (store sv)))"
    unfolding eq commitOutcome_store(1) [OF row user] by (rule map_settled_exitPrice)
  have b: "map outcome (filter (\<lambda>r. order_id r = order_id (task_order t))
            (orders (store (settleTrade t sv)))) =
         map (\<lambda>r. Some (if isWin t ?q then ''win'' else ''loss''))
            (filter (\<lambda>r. order_id r = order_id (task_order t)) (orders (store sv)))"
    unfolding eq commitOutcome_store(1) [OF row user] by (rule map_settled_outcome)
  have c: "?q = (if upValue > downValue then price * 0.998
            else if downValue > upValue then price * 1.002 else price)"
    by (simp add: lastSecond_def)
  have d: "0 \<le> upValue \<longrightarrow> 0 \<le> downValue \<longrightarrow>
            (?q = publish_spec price upValue downValue) =
            (upValue = downValue \<or> upValue / (upValue + downValue) > 0.6 \<or>
             downValue / (upValue + downValue) > 0.6)"
    using lastSecond_vs_publish [OF _ _ readPrice_nonzero [OF price]] by blast
  from a b c d show ?thesis by (intro conjI)
qed

theorem settlement_price_rule_witness:
  "map exitPrice (orders (store (settleTrade example_task example_placed))) = [Some 199.6]
   \<and> lastSecond 200 10 0 = 199.6 \<and> publish_spec 200 10 0 = 199.6"
proof -
  have tot: "getOrderTotals (store example_placed) (rq_symbolId (task_request example_task))
      = (10, 0)"
    by (simp add: example_placed_eq getOrderTotals_def example_request_def example_order_def
        new_row_def order_of_request_def example_task_def)
  have rp: "readPrice example_placed (rq_symbol (task_request example_task)) = Some 200"
    by (simp add: example_placed_eq readPrice_def example_request_def example_task_def)
  have usr: "users (store example_placed) (rq_userId (task_request example_task)) = Some 90"
    by (simp add: example_placed_eq example_request_def example_task_def)
  have oid: "order_id (task_order example_task) = 1"
    by (simp add: example_task_def example_order_def new_row_def)
  have row: "order_id (task_order example_task) \<in>
      set (map order_id (orders (store example_placed)))"
    by (simp add: example_placed_eq example_task_def)
  have pre: "orders (store example_placed) = [example_order]"
    by (simp add: example_placed_eq)
  have post: "map order_id (orders (store (settleTrade example_task example_placed))) = [1]"
    by (simp add: example_once settled_def example_order_def new_row_def)
  have all: "filter (\<lambda>r. order_id r = 1)
      (orders (store (settleTrade example_task example_placed))) =
      orders (store (settleTrade example_task example_placed))"
    by (simp add: example_once settled_def example_order_def new_row_def)
  have ls: "lastSecond 200 10 0 = 199.6" by (simp add: lastSecond_def)
  have ex: "order_id example_order = 1" by (simp add: example_order_def new_row_def)
  from settlement_price_rule [OF rp tot usr row]
  show ?thesis
    unfolding oid all pre by (simp add: ls ex)
qed

text \<open>
  Claim C3 as stated fails: with 55 staked up and 45 down the settlement rule turns 100
  into 99.8, while the publishing algorithm, whose threshold of 0.6 is not reached,
  leaves 100.
\<close>

theorem settlement_price_counterexample:
  "lastSecond 100 55 45 = 99.8 \<and> publish_spec 100 55 45 = 100 \<and>
   manipulate 100 55 45 = Some 100"
  by (simp add: lastSecond_def publish_spec_def manipulate_def quotient_def Let_def)

subsection \<open>The intake\<close>

text \<open>
  Claim C4, as the code has it. The intake rejects, before any change, a request whose
  symbol, amount, direction or duration is empty or zero, with the reason "Invalid
  input", and otherwise a request of an unknown user or of a user whose balance is below
  the amount, with the one reason "Insufficient balance". A request with a symbol, a
  direction, a positive amount and a positive duration, of a user whose balance covers
  the amount, is accepted. Whenever the answer is not the created order, the state is
  unchanged; whenever it is, the order has been added as an open order and the balance
  debited by the amount, both or neither.
\<close>

theorem intake_guard:
  "(rq_symbol rq = [] \<or> rq_amount rq = 0 \<or> rq_direction rq = [] \<or> rq_duration rq = 0 \<longrightarrow>
      postOrder now rq sv = (Status400 ''Invalid input'', sv))
   \<and> (rq_symbol rq \<noteq> [] \<and> rq_amount rq \<noteq> 0 \<and> rq_direction rq \<noteq> [] \<and> rq_duration rq \<noteq> 0 \<longrightarrow>
      users (store sv) (rq_userId rq) = None \<or>
      (\<exists>b. users (store sv) (rq_userId rq) = Some b \<and> b < rq_amount rq) \<longrightarrow>
      postOrder now rq sv = (Status400 ''Insufficient balance'', sv))
   \<and> (rq_symbol rq \<noteq> [] \<and> 0 < rq_amount rq \<and> rq_direction rq \<noteq> [] \<and> 0 < rq_duration rq \<longrightarrow>
      (\<exists>b. users (store sv) (rq_userId rq) = Some b \<and> rq_amount rq \<le> b) \<longrightarrow>
      (\<exists>ord sv'. postOrder now rq sv = (Status201 ord, sv')))
   \<and> ((\<forall>ord. fst (postOrder now rq sv) \<noteq> Status201 ord) \<longrightarrow>
      snd (postOrder now rq sv) = sv)
   \<and> (\<forall>ord sv'. postOrder now rq sv = (Status201 ord, sv') \<longrightarrow>
      orders (store sv') = orders (store sv) @ [ord] \<and>
      userId ord = rq_userId rq \<and> amount ord = rq_amount rq \<and> outcome ord = None \<and>
      (\<exists>b. users (store sv) (rq_userId rq) = Some b \<and> rq_amount rq \<le> b \<and>
           users (store sv') = (users (store sv))(rq_userId rq := Some (b - rq_amount rq))))"
proof (intro conjI impI allI)
  assume "rq_symbol rq = [] \<or> rq_amount rq = 0 \<or> rq_direction rq = [] \<or> rq_duration rq = 0"
  then show "postOrder now rq sv = (Status400 ''Invalid input'', sv)"
    by (simp add: postOrder_def)
next
  assume "rq_symbol rq \<noteq> [] \<and> rq_amount rq \<noteq> 0 \<and> rq_direction rq \<noteq> [] \<and> rq_duration rq \<noteq> 0"
    and "users (store sv) (rq_userId rq) = None \<or>
      (\<exists>b. users (store sv) (rq_userId rq) = Some b \<and> b < rq_amount rq)"
  then show "postOrder now rq sv = (Status400 ''Insufficient balance'', sv)"
    by (auto simp: postOrder_def)
next
  assume "rq_symbol rq \<noteq> [] \<and> 0 < rq_amount rq \<and> rq_direction rq \<noteq> [] \<and> 0 < rq_duration rq"
    and "\<exists>b. users (store sv) (rq_userId rq) = Some b \<and> rq_amount rq \<le> b"
  then show "\<exists>ord sv'. postOrder now rq sv = (Status201 ord, sv')"
    by (auto simp: postOrder_def Let_def)
next
  assume "\<forall>ord. fst (postOrder now rq sv) \<noteq> Status201 ord"
  then show "snd (postOrder now rq sv) = sv"
    by (auto simp: postOrder_def Let_def split: if_splits option.splits)
next
  fix ord sv'
  assume acc: "postOrder now rq sv = (Status201 ord, sv')"
  show "orders (store sv') = orders (store sv) @ [ord]"
    by (rule postOrder_accepted(3) [OF acc])
  show "userId ord = rq_userId rq" "amount ord = rq_amount rq" "outcome ord = None"
    by (simp_all add: postOrder_accepted(1) [OF acc] new_row_def order_of_request_def)
  show "\<exists>b. users (store sv) (rq_userId rq) = Some b \<and> rq_amount rq \<le> b \<and>
           users (store sv') = (users (store sv))(rq_userId rq := Some (b - rq_amount rq))"
    by (rule postOrder_accepted(2) [OF acc])
qed

theorem intake_guard_witness:
  "postOrder 0 (example_request\<lparr>rq_amount := 0\<rparr>) example_server =
     (Status400 ''Invalid input'', example_server)
   \<and> postOrder 0 (example_request\<lparr>rq_amount := 1000\<rparr>) example_server =
     (Status400 ''Insufficient balance'', example_server)
   \<and> orders (store example_placed) = orders (store example_server) @ [example_order]
   \<and> users (store example_placed) 1 = Some 90"
proof -
  note g1 = intake_guard [of "example_request\<lparr>rq_amount := 0\<rparr>" 0 example_server]
  note g2 = intake_guard [of "example_request\<lparr>rq_amount := 1000\<rparr>" 0 example_server]
  note g3 = intake_guard [of example_request 0 example_server]
  have a: "postOrder 0 (example_request\<lparr>rq_amount := 0\<rparr>) example_server =
     (Status400 ''Invalid input'', example_server)"
    using g1 by simp
  have u: "users (store example_server) 1 = Some 100"
    by (simp add: example_server_def example_db_def)
  have b: "postOrder 0 (example_request\<lparr>rq_amount := 1000\<rparr>) example_server =
     (Status400 ''Insufficient balance'', example_server)"
    using g2 u by (simp add: example_request_def)
  have c: "orders (store example_placed) = orders (store example_server) @ [example_order]
    \<and> users (store example_placed) 1 = Some 90"
    using g3 example_postOrder u by (auto simp: example_request_def)
  from a b c show ?thesis by blast
qed

text \<open>
  Claim C4 as stated fails: a request of a user that does not exist and a request that
  exceeds the balance of an existing user are both answered "Insufficient balance"; the
  two cases cannot be told apart by the reason.
\<close>

theorem intake_reason_counterexample:
  "users (store example_server) 7 = None
   \<and> fst (postOrder 0 (example_request\<lparr>rq_userId := 7\<rparr>) example_server) =
       Status400 ''Insufficient balance''
   \<and> users (store example_server) 1 = Some 100
   \<and> fst (postOrder 0 (example_request\<lparr>rq_amount := 1000\<rparr>) example_server) =
       Status400 ''Insufficient balance''"
  by (simp add: postOrder_def example_request_def example_server_def example_db_def)

subsection \<open>The price cache\<close>

lemma onMessages_append:
  "onMessages (fs @ gs) cache = onMessages gs (onMessages fs cache)"
  by (induction fs arbitrary: cache) simp_all

lemma tickersFor_append: "tickersFor s (fs @ gs) = tickersFor s fs @ tickersFor s gs"
  by (induction s fs rule: tickersFor.induct) simp_all

lemma onMessages_snoc: "onMessages (fs @ [f]) cache = onMessage f (onMessages fs cache)"
  by (simp add: onMessages_append)

lemma onMessages_last_ticker:
  "onMessages fs cache s =
     (if tickersFor s fs = [] then cache s else Some (msg_c (last (tickersFor s fs))))"
proof (induction fs rule: rev_induct)
  case Nil
  show ?case by simp
next
  case (snoc f fs)
  show ?case
  proof (cases f)
    case Malformed
    with snoc show ?thesis by (simp add: onMessages_snoc tickersFor_append)
  next
    case (Message m)
    with snoc show ?thesis by (simp add: onMessages_snoc tickersFor_append)
  qed
qed

text \<open>
  Claim C6, as the code has it. Writing the cache is unconditional: a ticker frame
  overwrites the entry of its symbol, whatever the observation times are, and leaves the
  entry of every other symbol as it is; a frame of another event type and a frame that
  does not parse leave the whole cache as it is. So, for every symbol and after any
  sequence of frames, the cache holds the price of the ticker frame for that symbol that
  arrived last, or what it held before when there was none.
\<close>

theorem cache_last_arrival_wins:
  "(msg_e m = ''24hrTicker'' \<longrightarrow>
      onMessages (fs @ [Message m]) cache (msg_s m) = Some (msg_c m))
   \<and> (msg_e m \<noteq> ''24hrTicker'' \<longrightarrow>
      onMessages (fs @ [Message m]) cache = onMessages fs cache)
   \<and> onMessages (fs @ [Malformed]) cache = onMessages fs cache
   \<and> (msg_e m = ''24hrTicker'' \<longrightarrow>
      onMessages (fs @ [Message m]) cache =
        (onMessages fs cache)(msg_s m := Some (msg_c m)))
   \<and> (msg_s m \<noteq> s \<longrightarrow>
      onMessages (fs @ [Message m]) cache s = onMessages fs cache s)
   \<and> onMessages fs cache s =
       (if tickersFor s fs = [] then cache s else Some (msg_c (last (tickersFor s fs))))"
proof (intro conjI impI)
  show "onMessages fs cache s =
       (if tickersFor s fs = [] then cache s else Some (msg_c (last (tickersFor s fs))))"
    by (rule onMessages_last_ticker)
qed (simp_all add: onMessages_append)

theorem cache_last_arrival_wins_witness:
  "onMessages
     [Message \<lparr>msg_e = ''24hrTicker'', msg_E = 3, msg_s = ''BTCUSDT'', msg_c = Num 30\<rparr>,
      Message \<lparr>msg_e = ''24hrTicker'', msg_E = 7, msg_s = ''ETHUSDT'', msg_c = Num 9\<rparr>,
      Message \<lparr>msg_e = ''24hrTicker'', msg_E = 5, msg_s = ''BTCUSDT'', msg_c = Num 50\<rparr>]
     (\<lambda>_. None) ''BTCUSDT'' = Some (Num 50)
   \<and> onMessages
     [Message \<lparr>msg_e = ''24hrTicker'', msg_E = 3, msg_s = ''BTCUSDT'', msg_c = Num 30\<rparr>,
      Message \<lparr>msg_e = ''24hrTicker'', msg_E = 7, msg_s = ''ETHUSDT'', msg_c = Num 9\<rparr>,
      Message \<lparr>msg_e = ''24hrTicker'', msg_E = 5, msg_s = ''BTCUSDT'', msg_c = Num 50\<rparr>]
     (\<lambda>_. None) ''ETHUSDT'' = Some (Num 9)"
proof -
  let ?a = "\<lparr>msg_e = ''24hrTicker'', msg_E = 3, msg_s = ''BTCUSDT'', msg_c = Num 30\<rparr>"
  let ?b = "\<lparr>msg_e = ''24hrTicker'', msg_E = 7, msg_s = ''ETHUSDT'', msg_c = Num 9\<rparr>"
  let ?c = "\<lparr>msg_e = ''24hrTicker'', msg_E = 5, msg_s = ''BTCUSDT'', msg_c = Num 50\<rparr>"
  note w = cache_last_arrival_wins [of ?c "[Message ?a, Message ?b]" "\<lambda>_. None" "''ETHUSDT''"]
  have 1: "onMessages ([Message ?a, Message ?b] @ [Message ?c]) (\<lambda>_. None) ''BTCUSDT'' =
      Some (Num 50)"
    using w [THEN conjunct1] by simp
  have 2: "onMessages ([Message ?a, Message ?b] @ [Message ?c]) (\<lambda>_. None) ''ETHUSDT'' =
      onMessages [Message ?a, Message ?b] (\<lambda>_. None) ''ETHUSDT''"
    using w [THEN conjunct2, THEN conjunct2, THEN conjunct2, THEN conjunct2, THEN conjunct1]
    by simp
  from 1 2 show ?thesis by simp
qed

text \<open>
  Claim C6 as stated fails: after a frame observed at time 5 with price 50 and then a
  frame observed at time 3 with price 30, the cache holds 30.
\<close>

theorem cache_stale_write_counterexample:
  "onMessages
     [Message \<lparr>msg_e = ''24hrTicker'', msg_E = 5, msg_s = ''BTCUSDT'', msg_c = Num 50\<rparr>,
      Message \<lparr>msg_e = ''24hrTicker'', msg_E = 3, msg_s = ''BTCUSDT'', msg_c = Num 30\<rparr>]
     (\<lambda>_. None) ''BTCUSDT'' = Some (Num 30)"
  by simp

subsection \<open>Settlement when no price is known\<close>

lemma settled_outcomes:
  "set (map outcome (map (\<lambda>row. if order_id row = i then settled p out pl row else row) rows))
     \<subseteq> insert (Some out) (set (map outcome rows))"
  by (induction rows) (auto simp: settled_def)

lemma transaction_settlementOps_orders:
  assumes "transaction (settlementOps t p) st = Some st'"
  shows "orders st' = map (\<lambda>row. if order_id row = order_id (task_order t)
        then settled p (if isWin t p then ''win'' else ''loss'') (profitLossOf t p) row
        else row) (orders st)"
proof (cases "order_id (task_order t) \<in> set (map order_id (orders st))")
  case False
  with assms show ?thesis by (simp add: settlementOps_def)
next
  case row: True
  show ?thesis
  proof (cases "users st (rq_userId (task_request t))")
    case None
    with assms row show ?thesis
      by (cases "isWin t p") (simp_all add: settlementOps_def)
  next
    case (Some b)
    from transaction_settlementOps [OF row Some, of p] assms
    show ?thesis by auto
  qed
qed

lemma commitOutcome_outcomes:
  "set (map outcome (orders (store (commitOutcome t p sv)))) \<subseteq>
     set (map outcome (orders (store sv))) \<union> {Some ''win'', Some ''loss''}"
proof (cases "transaction (settlementOps t p) (store sv)")
  case None
  then have "commitOutcome t p sv = sv" by (simp add: commitOutcome_def)
  then show ?thesis by (simp add: subset_insertI2)
next
  case (Some st)
  then have sv': "store (commitOutcome t p sv) = st" by (simp add: commitOutcome_def)
  have "set (map outcome (orders st)) \<subseteq>
      insert (Some (if isWin t p then ''win'' else ''loss''))
        (set (map outcome (orders (store sv))))"
    unfolding transaction_settlementOps_orders [OF Some] by (rule settled_outcomes)
  then show ?thesis
    unfolding sv' by (cases "isWin t p") auto
qed

lemma settleTrade_realTime_frame:
  "timers (settleTrade_realTime t sv) = timers sv"
  by (simp add: settleTrade_realTime_def commitOutcome_frame split: option.splits)

lemma example_quiet_placed_eq:
  "example_quiet_placed =
     \<lparr>store = \<lparr>users = (\<lambda>_. None)(1 := Some 90), orders = [example_order],
      symbols = [\<lparr>symbol_id = 1, symbol_name = ''BTCUSDT'', binanceSymbol = ''BTCUSDT'',
                  manipulatedPrice = None, currentPrice = None\<rparr>],
      nextOrderId = 2\<rparr>, manipulatedPrices = (\<lambda>_. None),
      priceCache = (\<lambda>_. None), timers = [(60000, example_task)]\<rparr>"
  by (simp add: example_quiet_placed_def example_quiet_def postOrder_def example_request_def
      example_server_def example_db_def example_order_def example_task_def Let_def)

text \<open>
  Claim C7, as the code has it. When the timer fires, the price is the published price
  held in memory if there is one, else the cached feed price (in \<open>part_001\<close> the
  published price only). If there is none, the callback returns and nothing has changed:
  the order stays open, no further timer is armed, and no run ever writes an outcome
  other than "win" or "loss".
\<close>

theorem settlement_without_price:
  "(manipulatedPrices sv symbol = Some p \<and> p \<noteq> 0 \<longrightarrow> readPrice sv symbol = Some p)
   \<and> (manipulatedPrices sv symbol = None \<or> manipulatedPrices sv symbol = Some 0 \<longrightarrow>
        readPrice sv symbol = usable (priceCache sv symbol))
   \<and> (readPrice sv (rq_symbol (task_request t)) = None \<longrightarrow> settleTrade t sv = sv)
   \<and> (manipulatedPrices sv (rq_symbol (task_request t)) = None \<or>
      manipulatedPrices sv (rq_symbol (task_request t)) = Some 0 \<longrightarrow>
        settleTrade_realTime t sv = sv)
   \<and> timers (settleTrade t sv) = timers sv
   \<and> timers (settleTrade_realTime t sv) = timers sv
   \<and> set (map outcome (orders (store (settleTrade t sv)))) \<subseteq>
        set (map outcome (orders (store sv))) \<union> {Some ''win'', Some ''loss''}"
proof (intro conjI impI)
  assume "manipulatedPrices sv symbol = Some p \<and> p \<noteq> 0"
  then show "readPrice sv symbol = Some p" by (simp add: readPrice_def)
next
  assume "manipulatedPrices sv symbol = None \<or> manipulatedPrices sv symbol = Some 0"
  then show "readPrice sv symbol = usable (priceCache sv symbol)"
    by (auto simp: readPrice_def getCurrentPrice_def)
next
  assume "readPrice sv (rq_symbol (task_request t)) = None"
  then show "settleTrade t sv = sv" by (simp add: settleTrade_def)
next
  assume "manipulatedPrices sv (rq_symbol (task_request t)) = None \<or>
      manipulatedPrices sv (rq_symbol (task_request t)) = Some 0"
  then show "settleTrade_realTime t sv = sv" by (auto simp: settleTrade_realTime_def)
next
  show "timers (settleTrade t sv) = timers sv" by (rule settleTrade_frame)
  show "timers (settleTrade_realTime t sv) = timers sv" by (rule settleTrade_realTime_frame)
  show "set (map outcome (orders (store (settleTrade t sv)))) \<subseteq>
        set (map outcome (orders (store sv))) \<union> {Some ''win'', Some ''loss''}"
  proof (cases "readPrice sv (rq_symbol (task_request t))")
    case None
    then have "settleTrade t sv = sv" by (simp add: settleTrade_def)
    then show ?thesis by (simp add: subset_insertI2)
  next
    case (Some price)
    obtain u d where "getOrderTotals (store sv) (rq_symbolId (task_request t)) = (u, d)"
      by (cases "getOrderTotals (store sv) (rq_symbolId (task_request t))")
    with Some have "settleTrade t sv = commitOutcome t (lastSecond price u d) sv"
      by (simp add: settleTrade_def)
    then show ?thesis by (simp only: commitOutcome_outcomes)
  qed
qed

theorem settlement_without_price_witness:
  "readPrice example_placed ''BTCUSDT'' = Some 200
   \<and> settleTrade example_task example_quiet_placed = example_quiet_placed
   \<and> settleTrade_realTime example_task example_quiet_placed = example_quiet_placed"
proof -
  have sym: "rq_symbol (task_request example_task) = ''BTCUSDT''"
    by (simp add: example_task_def example_request_def)
  have a: "manipulatedPrices example_placed ''BTCUSDT'' = Some 200"
    by (simp add: example_placed_eq)
  have b: "manipulatedPrices example_quiet_placed ''BTCUSDT'' = None"
    "priceCache example_quiet_placed ''BTCUSDT'' = None"
    by (simp_all add: example_quiet_placed_eq)
  from settlement_without_price [of example_placed "''BTCUSDT''" 200 example_task]
  have 1: "readPrice example_placed ''BTCUSDT'' = Some 200" using a by simp
  from settlement_without_price [of example_quiet_placed "''BTCUSDT''" 0 example_task]
  have 2: "settleTrade example_task example_quiet_placed = example_quiet_placed"
    "settleTrade_realTime example_task example_quiet_placed = example_quiet_placed"
    using b by (simp_all add: sym)
  from 1 2 show ?thesis by (intro conjI)
qed

text \<open>
  Claim C7 as stated fails: in the venue without prices the stake of 10 is debited at
  the intake, and the settlement run leaves the balance at 90 and the order open, arms
  no timer and marks nothing.
\<close>

theorem settlement_without_price_counterexample:
  "readPrice example_quiet_placed ''BTCUSDT'' = None
   \<and> users (store example_quiet) 1 = Some 100
   \<and> users (store example_quiet_placed) 1 = Some 90
   \<and> users (store (settleTrade example_task example_quiet_placed)) 1 = Some 90
   \<and> map outcome (orders (store (settleTrade example_task example_quiet_placed))) = [None]
   \<and> timers (settleTrade example_task example_quiet_placed) = timers example_quiet_placed"
proof -
  have rp: "readPrice example_quiet_placed ''BTCUSDT'' = None"
    by (simp add: example_quiet_placed_eq readPrice_def getCurrentPrice_def)
  have same: "settleTrade example_task example_quiet_placed = example_quiet_placed"
    by (simp add: settleTrade_def rp example_task_def example_request_def)
  have u0: "users (store example_quiet) 1 = Some 100"
    by (simp add: example_quiet_def example_server_def example_db_def)
  have u1: "users (store example_quiet_placed) 1 = Some 90"
    by (simp add: example_quiet_placed_eq)
  have o: "map outcome (orders (store example_quiet_placed)) = [None]"
    by (simp add: example_quiet_placed_eq example_order_def new_row_def)
  show ?thesis unfolding same using rp u0 u1 o by (intro conjI) simp_all
qed

subsection \<open>Determinism of the published price\<close>

lemma getOrderTotals_symbols:
  "getOrderTotals (st\<lparr>symbols := rows\<rparr>) sid = getOrderTotals st sid"
  by (simp add: getOrderTotals_def)

lemma find_binanceSymbol_update:
  "find (\<lambda>row. binanceSymbol row = k)
     (map (\<lambda>row. if binanceSymbol row = k then row\<lparr>manipulatedPrice := v\<rparr> else row) rows) =
   map_option (\<lambda>row. row\<lparr>manipulatedPrice := v\<rparr>) (find (\<lambda>row. binanceSymbol row = k) rows)"
  by (induction rows) simp_all

lemma find_symbol_name_update:
  "find (\<lambda>row. symbol_name row = k)
     (map (\<lambda>row. if symbol_name row = k
                  then row\<lparr>manipulatedPrice := v, currentPrice := w\<rparr> else row) rows) =
   map_option (\<lambda>row. row\<lparr>manipulatedPrice := v, currentPrice := w\<rparr>)
     (find (\<lambda>row. symbol_name row = k) rows)"
  by (induction rows) simp_all

lemma map_binanceSymbol_update_twice:
  "map (\<lambda>row. if binanceSymbol row = k then row\<lparr>manipulatedPrice := v\<rparr> else row)
     (map (\<lambda>row. if binanceSymbol row = k then row\<lparr>manipulatedPrice := v\<rparr> else row) rows) =
   map (\<lambda>row. if binanceSymbol row = k then row\<lparr>manipulatedPrice := v\<rparr> else row) rows"
  by (induction rows) simp_all

lemma map_symbol_name_update_twice:
  "map (\<lambda>row. if symbol_name row = k
               then row\<lparr>manipulatedPrice := v, currentPrice := w\<rparr> else row)
     (map (\<lambda>row. if symbol_name row = k
                  then row\<lparr>manipulatedPrice := v, currentPrice := w\<rparr> else row) rows) =
   map (\<lambda>row. if symbol_name row = k
               then row\<lparr>manipulatedPrice := v, currentPrice := w\<rparr> else row) rows"
  by (induction rows) simp_all

lemma adjustPrice_again:
  assumes "adjustPrice fetched symbol st = (Some p, st')"
  shows "adjustPrice fetched symbol st' = (Some p, st')"
proof -
  from assms obtain symbolData raw where
    f: "find (\<lambda>row. binanceSymbol row = symbol) (symbols st) = Some symbolData"
    and u: "usable fetched = Some raw"
    by (auto simp: adjustPrice_def split: option.splits)
  obtain up down where tot: "getOrderTotals st (symbol_id symbolData) = (up, down)"
    by (cases "getOrderTotals st (symbol_id symbolData)")
  from assms f u tot have m: "manipulate raw up down = Some p"
    and st': "st' = st\<lparr>symbols :=
        map (\<lambda>row. if binanceSymbol row = symbol then row\<lparr>manipulatedPrice := Some p\<rparr>
                    else row) (symbols st)\<rparr>"
    by (auto simp: adjustPrice_def split: option.splits)
  have f': "find (\<lambda>row. binanceSymbol row = symbol) (symbols st') =
      Some (symbolData\<lparr>manipulatedPrice := Some p\<rparr>)"
    unfolding st' by (simp add: find_binanceSymbol_update f)
  have tot': "getOrderTotals st' (symbol_id symbolData) = (up, down)"
    unfolding st' by (simp add: getOrderTotals_symbols tot)
  show ?thesis
    unfolding adjustPrice_def f' u
    by (simp add: tot' m) (simp add: st' map_binanceSymbol_update_twice)
qed

lemma adjustPrice_jitter_again:
  assumes "adjustPrice_jitter rnd cache symbol st = (Some p, st')"
  shows "adjustPrice_jitter rnd cache symbol st' = (Some p, st')"
proof -
  from assms obtain symbolData raw where
    u: "getCurrentPrice cache symbol = Some raw"
    and f: "find (\<lambda>row. symbol_name row = symbol) (symbols st) = Some symbolData"
    by (auto simp: adjustPrice_jitter_def split: option.splits)
  obtain up down where tot: "getOrderTotals st (symbol_id symbolData) = (up, down)"
    by (cases "getOrderTotals st (symbol_id symbolData)")
  from assms f u tot have m: "manipulate_jitter rnd raw up down = Some p"
    and st': "st' = st\<lparr>symbols :=
        map (\<lambda>row. if symbol_name row = symbol
                    then row\<lparr>manipulatedPrice := Some p, currentPrice := Some raw\<rparr>
                    else row) (symbols st)\<rparr>"
    by (auto simp: adjustPrice_jitter_def split: option.splits)
  have f': "find (\<lambda>row. symbol_name row = symbol) (symbols st') =
      Some (symbolData\<lparr>manipulatedPrice := Some p, currentPrice := Some raw\<rparr>)"
    unfolding st' by (simp add: find_symbol_name_update f)
  have tot': "getOrderTotals st' (symbol_id symbolData) = (up, down)"
    unfolding st' by (simp add: getOrderTotals_symbols tot)
  show ?thesis
    unfolding adjustPrice_jitter_def f' u
    by (simp add: tot' m) (simp add: st' map_symbol_name_update_twice)
qed

lemma manipulate_jitter_factor:
  assumes "0 \<le> up" "0 \<le> down"
  shows "manipulate_jitter rnd price up down =
           Some (publish_spec price up down *
                 (if up + down = 0 then 1 else rnd * 0.0005 + 0.99975))"
proof (cases "up + down = 0")
  case True
  then show ?thesis by (simp add: manipulate_jitter_def publish_spec_def)
next
  case False
  with assms have pos: "0 < up + down" by linarith
  have d: "down / (up + down) = 1 - up / (up + down)"
    using pos by (simp add: field_simps)
  have u6: "(up / (up + down) > 0.6) = (up * 2 > down * 3)"
    using pos by (simp add: field_simps)
  have d6: "(1 - up / (up + down) > 0.6) = (down * 2 > up * 3)"
    using pos by (simp add: field_simps)
  have excl: "\<not> (up * 2 > down * 3 \<and> down * 2 > up * 3)"
    using assms by linarith
  show ?thesis
    using pos False excl
    by (auto simp: manipulate_jitter_def publish_spec_def quotient_def Let_def d u6 d6)
qed

text \<open>
  Claim C9, as the code has it. Without the jitter the published price is the function
  \<open>publish_spec\<close> of raw price and exposure. With the jitter of \<open>part_002\<close> it is that
  price times \<open>rnd * 0.0005 + 0.99975\<close> whenever the exposure is not zero, where \<open>rnd\<close> is
  drawn by \<open>Math.random()\<close> inside the function: two runs agree for equal draws. The one
  side effect, storing the price in the row of the symbol, does not change what a
  second run returns.
\<close>

theorem publish_depends_on_draw:
  assumes "0 \<le> upAmount" and "0 \<le> downAmount"
  shows "manipulate_jitter rnd rawPrice upAmount downAmount =
           Some (publish_spec rawPrice upAmount downAmount *
                 (if upAmount + downAmount = 0 then 1 else rnd * 0.0005 + 0.99975))
       \<and> manipulate rawPrice upAmount downAmount =
           Some (publish_spec rawPrice upAmount downAmount)
       \<and> (adjustPrice_jitter rnd cache symbol st = (Some p, st') \<longrightarrow>
            adjustPrice_jitter rnd cache symbol st' = (Some p, st'))
       \<and> (adjustPrice fetched symbol st = (Some p, st') \<longrightarrow>
            adjustPrice fetched symbol st' = (Some p, st'))"
proof (intro conjI impI)
  show "manipulate_jitter rnd rawPrice upAmount downAmount =
           Some (publish_spec rawPrice upAmount downAmount *
                 (if upAmount + downAmount = 0 then 1 else rnd * 0.0005 + 0.99975))"
    using assms by (rule manipulate_jitter_factor)
  show "manipulate rawPrice upAmount downAmount =
           Some (publish_spec rawPrice upAmount downAmount)"
    using assms by (rule manipulate_publish_spec)
next
  assume "adjustPrice_jitter rnd cache symbol st = (Some p, st')"
  then show "adjustPrice_jitter rnd cache symbol st' = (Some p, st')"
    by (rule adjustPrice_jitter_again)
next
  assume "adjustPrice fetched symbol st = (Some p, st')"
  then show "adjustPrice fetched symbol st' = (Some p, st')"
    by (rule adjustPrice_again)
qed

theorem publish_depends_on_draw_witness:
  "manipulate_jitter (1/2) 100 70 30 = Some 99.8
   \<and> manipulate_jitter 0 100 70 30 = Some 99.77505
   \<and> manipulate 100 70 30 = Some 99.8"
proof -
  have nn: "(0::real) \<le> 70" "(0::real) \<le> 30" by simp_all
  note half = publish_depends_on_draw [OF nn, of "1/2" 100 example_cache "[]" example_db
      0 example_db None]
  note zero = publish_depends_on_draw [OF nn, of 0 100 example_cache "[]" example_db
      0 example_db None]
  have a: "manipulate_jitter (1/2) 100 70 30 = Some 99.8"
    using half [THEN conjunct1] by (simp add: publish_spec_def)
  have b: "manipulate_jitter 0 100 70 30 = Some 99.77505"
    using zero [THEN conjunct1] by (simp add: publish_spec_def)
  have c: "manipulate 100 70 30 = Some 99.8"
    using zero [THEN conjunct2, THEN conjunct1] by (simp add: publish_spec_def)
  from a b c show ?thesis by (intro conjI)
qed

text \<open>
  Claim C9 as stated fails: on the same store and the same cached price of 100, the
  variant with the jitter returns 99.77505 when the draw is 0 and 99.8 when it is 1/2.
\<close>

theorem publish_draw_counterexample:
  "fst (adjustPrice_jitter 0 example_cache ''BTCUSDT'' (store example_placed)) = Some 99.77505
   \<and> fst (adjustPrice_jitter (1/2) example_cache ''BTCUSDT'' (store example_placed)) = Some 99.8
   \<and> manipulate_jitter 0 100 10 0 = Some 99.77505
   \<and> manipulate_jitter (1/2) 100 10 0 = Some 99.8"
proof -
  have tot: "getOrderTotals (store example_placed) (Suc 0) = (10, 0)"
    by (simp add: example_placed_eq getOrderTotals_def example_request_def example_order_def
        new_row_def order_of_request_def)
  have row: "find (\<lambda>row. symbol_name row = ''BTCUSDT'') (symbols (store example_placed)) =
      Some \<lparr>symbol_id = 1, symbol_name = ''BTCUSDT'', binanceSymbol = ''BTCUSDT'',
            manipulatedPrice = None, currentPrice = None\<rparr>"
    by (simp add: example_placed_eq)
  have cur: "getCurrentPrice example_cache ''BTCUSDT'' = Some 100"
    by (simp add: getCurrentPrice_def example_cache_def)
  have a: "manipulate_jitter 0 100 10 0 = Some 99.77505"
    by (simp add: manipulate_jitter_def quotient_def Let_def)
  have b: "manipulate_jitter (1/2) 100 10 0 = Some 99.8"
    by (simp add: manipulate_jitter_def quotient_def Let_def)
  show ?thesis
    unfolding adjustPrice_jitter_def cur row by (simp add: tot a b)
qed

end
